theory Spec2Isabelle
  imports Main
begin

section \<open>Constants of the two drivers\<close>

text \<open>
  \<^verbatim>\<open>#define RB_MAX_LEN 64\<close> and \<^verbatim>\<open>enum ResponseErrors {RES_ERR_FORMAT = -1001};\<close>
  stand in both headers (ocs.h and the header of OnStep Aux).
\<close>

definition RB_MAX_LEN :: nat where
  "RB_MAX_LEN = 64"

definition RES_ERR_FORMAT :: int where
  "RES_ERR_FORMAT = - 1001"

text \<open>
  Modelled from the spec: the enumeration \<^verbatim>\<open>TTY_ERROR\<close> is declared in indicom.h of
  the host framework, which is not among the sources. The spec names the transport failures
  (transport error, timeout) as negative codes and the source compares every result with
  \<^verbatim>\<open>TTY_OK\<close>; the numbering is the one of indicom.h.
\<close>

datatype TTY_ERROR =
    TTY_OK | TTY_READ_ERROR | TTY_WRITE_ERROR | TTY_SELECT_ERROR | TTY_TIME_OUT
  | TTY_PORT_FAILURE | TTY_PARAM_ERROR | TTY_ERRNO | TTY_OVERFLOW | TTY_PORT_BUSY

fun tty_code :: "TTY_ERROR \<Rightarrow> int" where
  "tty_code TTY_OK = 0"
| "tty_code TTY_READ_ERROR = - 1"
| "tty_code TTY_WRITE_ERROR = - 2"
| "tty_code TTY_SELECT_ERROR = - 3"
| "tty_code TTY_TIME_OUT = - 4"
| "tty_code TTY_PORT_FAILURE = - 5"
| "tty_code TTY_PARAM_ERROR = - 6"
| "tty_code TTY_ERRNO = - 7"
| "tty_code TTY_OVERFLOW = - 8"
| "tty_code TTY_PORT_BUSY = - 9"

section \<open>Results of a call\<close>

text \<open>
  A call returns a value, leaves by a C++ exception, never returns (the wait of the
  sequencing guard), or has no defined behaviour (an access outside the buffer it was given,
  a null pointer handed to the C library).
\<close>

datatype cxx_exception = Invalid_argument | Out_of_range

datatype 'a outcome = Returns 'a | Throws cxx_exception | Hangs | Undefined

text \<open>Sequencing: the rest of a function body runs only when the call before it returned.\<close>

definition then_do ::
  "'a outcome \<times> 's \<Rightarrow> ('a \<Rightarrow> 's \<Rightarrow> 'b outcome \<times> 's) \<Rightarrow> 'b outcome \<times> 's" where
  "then_do m f =
     (case m of
        (Returns x, s) \<Rightarrow> f x s
      | (Throws e, s) \<Rightarrow> (Throws e, s)
      | (Hangs, s) \<Rightarrow> (Hangs, s)
      | (Undefined, s) \<Rightarrow> (Undefined, s))"

section \<open>Buffers and C strings\<close>

definition NUL :: char where
  "NUL = CHR 0x00"

text \<open>
  A buffer is the list of the bytes of the array the caller passes. The bytes a read
  delivers are stored from index 0; storing more bytes than the array has is an overflow.
\<close>

definition store_bytes :: "string \<Rightarrow> string \<Rightarrow> string outcome" where
  "store_bytes buf bs =
     (if length bs \<le> length buf then Returns (bs @ drop (length bs) buf) else Undefined)"

definition poke :: "string \<Rightarrow> nat \<Rightarrow> char \<Rightarrow> string outcome" where
  "poke buf i c = (if i < length buf then Returns (buf[i := c]) else Undefined)"

text \<open>The text a C string function sees in a buffer: the bytes before the first NUL.\<close>

definition c_str :: "string \<Rightarrow> string" where
  "c_str buf = takeWhile (\<lambda>x. x \<noteq> NUL) buf"

text \<open>
  \<^verbatim>\<open>strchr(str, c)\<close> scans from the start for \<^verbatim>\<open>c\<close> and stops at the first NUL. A scan
  that meets neither inside the array leaves it.
\<close>

definition strchr :: "string \<Rightarrow> char \<Rightarrow> nat option outcome" where
  "strchr str c =
     (let i = length (takeWhile (\<lambda>x. x \<noteq> c \<and> x \<noteq> NUL) str)
      in if length str \<le> i then Undefined
         else if str ! i = c then Returns (Some i)
         else Returns None)"

text \<open>
  The framing step, written out in each of the receiving functions:
  \<^verbatim>\<open>
    term = strchr(data, '#');
    if (term)
        *term = '\0';
    if (nbytes_read < RB_MAX_LEN)
        data[nbytes_read] = '\0';
    else
        data[RB_MAX_LEN - 1] = '\0';
  \<close>
\<close>

definition terminate_response :: "string \<Rightarrow> int \<Rightarrow> string outcome" where
  "terminate_response data nbytes_read =
     (case strchr data CHR ''#'' of
        Returns term \<Rightarrow>
          (let data1 = (case term of Some k \<Rightarrow> data[k := NUL] | None \<Rightarrow> data)
           in if nbytes_read < int RB_MAX_LEN then poke data1 (nat nbytes_read) NUL
              else poke data1 (RB_MAX_LEN - 1) NUL)
      | Throws e \<Rightarrow> Throws e
      | Hangs \<Rightarrow> Hangs
      | Undefined \<Rightarrow> Undefined)"

section \<open>The transport\<close>

text \<open>
  Modelled from the spec: the transport (\<^verbatim>\<open>tty_write_string\<close>, \<^verbatim>\<open>tty_read_expanded\<close>,
  \<^verbatim>\<open>tty_read_section_expanded\<close> of indicom and \<^verbatim>\<open>tcflush\<close> of termios) is an external
  collaborator, a byte channel with blocking reads and writes, reached through the
  descriptor \<^verbatim>\<open>PortFD\<close> that the active connection supplies. The state that both drivers
  share holds the descriptor and, for the transport behind it, what its successive writes
  and reads return (result code; result code and bytes received), in order, and the calls
  made so far. Every execution of a driver function is the run of the model on the state
  that lists the results its calls had. When the lists are used up the link is silent: a
  write succeeds and a read times out with no byte.
\<close>

datatype connection = Serial | TCP

fun name :: "connection \<Rightarrow> string" where
  "name Serial = ''CONNECTION_SERIAL''"
| "name TCP = ''CONNECTION_TCP''"

datatype queue_selector = TCIFLUSH | TCIOFLUSH

datatype tty_call =
    Tcflush queue_selector
  | Write_string string
  | Read_expanded nat int int
  | Read_section_expanded char int int

record driver =
  PortFD :: int
  activeConnection :: connection
  connectionPortFD :: int
  isConnected :: bool
  writes :: "int list"
  reads :: "(int \<times> string) list"
  calls :: "tty_call list"

definition tcflush :: "queue_selector \<Rightarrow> 'a driver_scheme \<Rightarrow> 'a driver_scheme" where
  "tcflush q s = s\<lparr>calls := calls s @ [Tcflush q]\<rparr>"

definition next_write :: "'a driver_scheme \<Rightarrow> int" where
  "next_write s = (case writes s of [] \<Rightarrow> tty_code TTY_OK | e # _ \<Rightarrow> e)"

definition tty_write_string :: "string \<Rightarrow> 'a driver_scheme \<Rightarrow> int \<times> 'a driver_scheme" where
  "tty_write_string buf s =
     (next_write s, s\<lparr>writes := tl (writes s), calls := calls s @ [Write_string buf]\<rparr>)"

definition next_read :: "'a driver_scheme \<Rightarrow> int \<times> string" where
  "next_read s = (case reads s of [] \<Rightarrow> (tty_code TTY_TIME_OUT, []) | r # _ \<Rightarrow> r)"

text \<open>
  A read gives its result code, the count \<^verbatim>\<open>nbytes_read\<close> and the buffer with the bytes
  stored. A read of \<^verbatim>\<open>nbytes\<close> bytes takes at most that many; a read up to a stop
  character takes what arrived, however long.
\<close>

definition tty_read_expanded ::
  "string \<Rightarrow> nat \<Rightarrow> int \<Rightarrow> int \<Rightarrow> 'a driver_scheme \<Rightarrow>
     (int \<times> int \<times> string) outcome \<times> 'a driver_scheme" where
  "tty_read_expanded buf nbytes timeout_seconds timeout_microseconds s =
     (let bs = take nbytes (snd (next_read s));
          s1 = s\<lparr>reads := tl (reads s),
                 calls := calls s @ [Read_expanded nbytes timeout_seconds timeout_microseconds]\<rparr>
      in then_do (store_bytes buf bs, s1)
           (\<lambda>buf1 s2. (Returns (fst (next_read s), int (length bs), buf1), s2)))"

definition tty_read_section_expanded ::
  "string \<Rightarrow> char \<Rightarrow> int \<Rightarrow> int \<Rightarrow> 'a driver_scheme \<Rightarrow>
     (int \<times> int \<times> string) outcome \<times> 'a driver_scheme" where
  "tty_read_section_expanded buf stop_char timeout_seconds timeout_microseconds s =
     (let bs = snd (next_read s);
          s1 = s\<lparr>reads := tl (reads s),
                 calls := calls s @
                   [Read_section_expanded stop_char timeout_seconds timeout_microseconds]\<rparr>
      in then_do (store_bytes buf bs, s1)
           (\<lambda>buf1 s2. (Returns (fst (next_read s), int (length bs), buf1), s2)))"

text \<open>
  Modelled from the spec: the conversions of the C and C++ libraries (\<^verbatim>\<open>sscanf\<close> with
  \<^verbatim>\<open>%i\<close> and \<^verbatim>\<open>%lf\<close>, \<^verbatim>\<open>std::stof\<close>, \<^verbatim>\<open>std::stoi\<close>, \<^verbatim>\<open>atoi\<close>) are no code of the
  repository; they are parameters of the model, and \<^typ>\<open>'d\<close> stands for the floating
  point values. \<open>sscanf_i\<close> and \<open>sscanf_lf\<close> give the converted value when the call
  returns 1 and \<open>None\<close> otherwise; \<open>stof\<close> and \<open>stoi\<close> give the exception they throw
  (string-to-number conversions that throw, in the words of the spec) or the value.
\<close>

record 'd clib =
  sscanf_i :: "string \<Rightarrow> int option"
  sscanf_lf :: "string \<Rightarrow> 'd option"
  stof :: "string \<Rightarrow> cxx_exception + 'd"
  stoi :: "string \<Rightarrow> cxx_exception + int"
  atoi :: "string \<Rightarrow> int"

text \<open>
  \<^verbatim>\<open>strtok(str, delim)\<close> with the one delimiter the driver uses: the first token of the
  text and what follows its delimiter, or nothing (a null pointer) when the text has no
  token.
\<close>

definition strtok :: "string \<Rightarrow> char \<Rightarrow> (string \<times> string) option" where
  "strtok str delim =
     (let str1 = dropWhile (\<lambda>x. x = delim) str
      in if str1 = [] then None
         else Some (takeWhile (\<lambda>x. x \<noteq> delim) str1, drop 1 (dropWhile (\<lambda>x. x \<noteq> delim) str1)))"

section \<open>The pre-flush\<close>

text \<open>
  \<^verbatim>\<open>OCS::flushIO\<close> and \<^verbatim>\<open>OnStep_Aux::flushIO\<close> are the same text up to the name of the
  lock:
  \<^verbatim>\<open>
    tcflush(fd, TCIOFLUSH);
    int error_type = 0;
    int nbytes_read;
    std::unique_lock<std::mutex> guard(ocsCommsLock);
    tcflush(fd, TCIOFLUSH);
    do {
        char discard_data[RB_MAX_LEN] = {0};
        error_type = tty_read_section_expanded(fd, discard_data, '#', 0, 1000, &nbytes_read);
        ...
    } while (error_type > 0);
    return 0;
  \<close>
  Each turn of the loop takes one read result, and a positive code only comes from the
  list, so the loop is a total function.
\<close>

function flushIO_loop :: "'a driver_scheme \<Rightarrow> unit outcome \<times> 'a driver_scheme" where
  "flushIO_loop s =
     (case tty_read_section_expanded (replicate RB_MAX_LEN NUL) CHR ''#'' 0 1000 s of
        (Returns (error_type, nbytes_read, discard_data), s1) \<Rightarrow>
          if error_type > 0 then flushIO_loop s1 else (Returns (), s1)
      | (Throws e, s1) \<Rightarrow> (Throws e, s1)
      | (Hangs, s1) \<Rightarrow> (Hangs, s1)
      | (Undefined, s1) \<Rightarrow> (Undefined, s1))"
  by pat_completeness auto
termination
  apply (relation "measure (\<lambda>s. length (reads s))")
   apply simp
  apply (auto simp: tty_read_section_expanded_def then_do_def store_bytes_def Let_def
      next_read_def split: if_splits list.splits)
  done

declare flushIO_loop.simps [simp del]

definition flushIO :: "'a driver_scheme \<Rightarrow> int outcome \<times> 'a driver_scheme" where
  "flushIO s =
     then_do (flushIO_loop (tcflush TCIOFLUSH (tcflush TCIOFLUSH s)))
       (\<lambda>_ s1. (Returns 0, s1))"

section \<open>The dome driver (OCS)\<close>

definition OCS_handshake :: string where
  "OCS_handshake = '':IP#''"

definition OCS_get_dome_status :: string where
  "OCS_get_dome_status = '':DU#''"

definition OCS_get_timeouts :: string where
  "OCS_get_timeouts = '':IT''"

datatype dome_capability =
    DOME_CAN_ABORT | DOME_CAN_PARK | DOME_CAN_ABS_MOVE | DOME_CAN_SYNC
  | DOME_HAS_BACKLASH | DOME_HAS_SHUTTER

text \<open>
  The members of \<^verbatim>\<open>class OCS\<close> that the protocol engine reads and writes, with their
  initial values: \<^verbatim>\<open>long int OCSTimeoutSeconds = 0; long int OCSTimeoutMicroSeconds = 100000;\<close>
  \<^verbatim>\<open>int ROOF_TIME_PRE_MOTION = 0; int ROOF_TIME_POST_MOTION = 0;\<close>. The capability
  of the dome is what \<^verbatim>\<open>SetDomeCapability\<close> was last given.
\<close>

record ocs = driver +
  OCSTimeoutSeconds :: int
  OCSTimeoutMicroSeconds :: int
  ROOF_TIME_PRE_MOTION :: int
  ROOF_TIME_POST_MOTION :: int
  capability :: "dome_capability list"

definition SetDomeCapability :: "dome_capability list \<Rightarrow> ocs \<Rightarrow> ocs" where
  "SetDomeCapability cap s = s\<lparr>capability := cap\<rparr>"

text \<open>
  \<^verbatim>\<open>bool OCS::sendOCSCommand(const char *cmd)\<close>. The function returns \<^verbatim>\<open>bool\<close>, so
  \<^verbatim>\<open>return error_type;\<close> converts the code: any code but 0 is \<^verbatim>\<open>true\<close>.
\<close>

definition OCS_sendOCSCommand :: "string \<Rightarrow> ocs \<Rightarrow> bool outcome \<times> ocs" where
  "OCS_sendOCSCommand cmd s =
     then_do (flushIO s) (\<lambda>_ s1.
       let s2 = tcflush TCIFLUSH s1;
           (error_type, s3) = tty_write_string cmd s2
       in if error_type \<noteq> tty_code TTY_OK then (Returns (error_type \<noteq> 0), s3)
          else
            then_do (tty_read_expanded [NUL] 1 (OCSTimeoutSeconds s3) (OCSTimeoutMicroSeconds s3) s3)
              (\<lambda>(error_type, nbytes_read, response) s4.
                 let s5 = tcflush TCIFLUSH s4
                 in if nbytes_read < 1 then (Returns False, s5)
                    else (Returns (response ! 0 = CHR ''0''), s5)))"

text \<open>
  \<^verbatim>\<open>int OCS::getCommandSingleCharErrorOrLongResponse(int fd, char *data, const char *cmd)\<close>:
  the result and the buffer \<^verbatim>\<open>data\<close> as the call leaves it.
\<close>

definition OCS_getCommandSingleCharErrorOrLongResponse ::
  "string \<Rightarrow> string \<Rightarrow> ocs \<Rightarrow> (int \<times> string) outcome \<times> ocs" where
  "OCS_getCommandSingleCharErrorOrLongResponse data cmd s =
     then_do (flushIO s) (\<lambda>_ s1.
       let s2 = tcflush TCIFLUSH s1;
           (error_type, s3) = tty_write_string cmd s2
       in if error_type \<noteq> tty_code TTY_OK then (Returns (error_type, data), s3)
          else
            then_do (tty_read_section_expanded data CHR ''#''
                       (OCSTimeoutSeconds s3) (OCSTimeoutMicroSeconds s3) s3)
              (\<lambda>(error_type, nbytes_read, data1) s4.
                 let s5 = tcflush TCIFLUSH s4
                 in then_do (terminate_response data1 nbytes_read, s5) (\<lambda>data2 s6.
                      if error_type \<noteq> tty_code TTY_OK then (Returns (error_type, data2), s6)
                      else (Returns (nbytes_read, data2), s6))))"

text \<open>
  \<^verbatim>\<open>int OCS::getCommandIntResponse(int fd, int *value, char *data, const char *cmd)\<close>:
  the result, \<^verbatim>\<open>*value\<close> and \<^verbatim>\<open>data\<close> as the call leaves them. \<^verbatim>\<open>*value\<close> keeps what
  the caller had in it unless the conversion stores a number.
\<close>

definition OCS_getCommandIntResponse ::
  "'d clib \<Rightarrow> int \<Rightarrow> string \<Rightarrow> string \<Rightarrow> ocs \<Rightarrow> (int \<times> int \<times> string) outcome \<times> ocs" where
  "OCS_getCommandIntResponse L val data cmd s =
     then_do (flushIO s) (\<lambda>_ s1.
       let s2 = tcflush TCIFLUSH s1;
           (error_type, s3) = tty_write_string cmd s2
       in if error_type \<noteq> tty_code TTY_OK then (Returns (error_type, val, data), s3)
          else
            then_do (tty_read_section_expanded data CHR ''#''
                       (OCSTimeoutSeconds s3) (OCSTimeoutMicroSeconds s3) s3)
              (\<lambda>(error_type, nbytes_read, data1) s4.
                 let s5 = tcflush TCIFLUSH s4
                 in then_do (terminate_response data1 nbytes_read, s5) (\<lambda>data2 s6.
                      if error_type \<noteq> tty_code TTY_OK
                      then (Returns (error_type, val, data2), tcflush TCIOFLUSH s6)
                      else
                        (case sscanf_i L (c_str data2) of
                           None \<Rightarrow> (Returns (RES_ERR_FORMAT, val, data2), tcflush TCIOFLUSH s6)
                         | Some v \<Rightarrow> (Returns (nbytes_read, v, data2), s6)))))"

text \<open>
  \<^verbatim>\<open>int OCS::getCommandDoubleResponse(int fd, double *value, char *data, const char *cmd)\<close>.
\<close>

definition OCS_getCommandDoubleResponse ::
  "'d clib \<Rightarrow> 'd \<Rightarrow> string \<Rightarrow> string \<Rightarrow> ocs \<Rightarrow> (int \<times> 'd \<times> string) outcome \<times> ocs" where
  "OCS_getCommandDoubleResponse L val data cmd s =
     then_do (flushIO s) (\<lambda>_ s1.
       let s2 = tcflush TCIFLUSH s1;
           (error_type, s3) = tty_write_string cmd s2
       in if error_type \<noteq> tty_code TTY_OK then (Returns (error_type, val, data), s3)
          else
            then_do (tty_read_section_expanded data CHR ''#''
                       (OCSTimeoutSeconds s3) (OCSTimeoutMicroSeconds s3) s3)
              (\<lambda>(error_type, nbytes_read, data1) s4.
                 let s5 = tcflush TCIFLUSH s4
                 in then_do (terminate_response data1 nbytes_read, s5) (\<lambda>data2 s6.
                      if error_type \<noteq> tty_code TTY_OK
                      then (Returns (error_type, val, data2), tcflush TCIOFLUSH s6)
                      else
                        (case sscanf_lf L (c_str data2) of
                           None \<Rightarrow> (Returns (RES_ERR_FORMAT, val, data2), tcflush TCIOFLUSH s6)
                         | Some v \<Rightarrow> (Returns (nbytes_read, v, data2), s6)))))"

text \<open>
  \<^verbatim>\<open>bool OCS::Handshake()\<close>. \<^verbatim>\<open>handshake_status\<close> is a \<^verbatim>\<open>bool\<close> that is assigned the
  \<^verbatim>\<open>int\<close> result of the handshake transaction. \<^verbatim>\<open>atoi\<close> is handed what \<^verbatim>\<open>strtok\<close>
  returned, a null pointer when the text has no further token.
\<close>

definition OCS_Handshake :: "'d clib \<Rightarrow> ocs \<Rightarrow> bool outcome \<times> ocs" where
  "OCS_Handshake L s =
     (if PortFD s > 0 then
        let s1 = (if name (activeConnection s) = ''CONNECTION_TCP''
                  then s\<lparr>OCSTimeoutMicroSeconds := 0, OCSTimeoutSeconds := 2\<rparr>
                  else s\<lparr>OCSTimeoutMicroSeconds := 200000, OCSTimeoutSeconds := 0\<rparr>)
        in then_do (OCS_getCommandSingleCharErrorOrLongResponse
                      (replicate RB_MAX_LEN NUL) OCS_handshake s1)
             (\<lambda>(r, handshake_response) s2.
                let handshake_status = (r \<noteq> 0)
                in if c_str handshake_response = ''OCS'' then
                     then_do (OCS_getCommandSingleCharErrorOrLongResponse
                                (replicate RB_MAX_LEN NUL) OCS_get_dome_status s2)
                       (\<lambda>(OCS_dome_present, OCS_dome_present_response) s3.
                          let s4 = (if OCS_dome_present > 0
                                    then SetDomeCapability
                                           [DOME_CAN_ABORT, DOME_CAN_PARK, DOME_CAN_ABS_MOVE,
                                            DOME_CAN_SYNC, DOME_HAS_BACKLASH, DOME_HAS_SHUTTER] s3
                                    else s3)
                          in then_do (OCS_getCommandSingleCharErrorOrLongResponse
                                        (replicate RB_MAX_LEN NUL) OCS_get_timeouts s4)
                               (\<lambda>(roof_timeout_error_or_fail, roof_timeout_response) s5.
                                  if roof_timeout_error_or_fail > 1 then
                                    (case strtok (c_str roof_timeout_response) CHR '','' of
                                       None \<Rightarrow> (Undefined, s5)
                                     | Some (split, rest) \<Rightarrow>
                                         let s6 = s5\<lparr>ROOF_TIME_PRE_MOTION := atoi L split\<rparr>
                                         in (case strtok rest CHR '','' of
                                               None \<Rightarrow> (Undefined, s6)
                                             | Some (split2, rest2) \<Rightarrow>
                                                 (Returns True,
                                                  s6\<lparr>ROOF_TIME_POST_MOTION := atoi L split2\<rparr>)))
                                  else (Returns True, s5)))
                   else (Returns handshake_status, s2))
      else (Returns False, s))"

section \<open>The auxiliary driver (OnStep Aux)\<close>

definition OS_handshake :: string where
  "OS_handshake = '':GVP#''"

definition OS_get_firmware :: string where
  "OS_get_firmware = '':GVN#''"

text \<open>
  Modelled from the spec: the header among the sources defines
  \<^verbatim>\<open>OS_get_defined_focusers_part ":FA"\<close> and not the macro \<^verbatim>\<open>OS_get_defined_focusers\<close>
  that \<^verbatim>\<open>GetCapabilites\<close> sends; like every command it is a colon-prefixed mnemonic
  ending with the terminator.
\<close>

definition OS_get_defined_focusers :: string where
  "OS_get_defined_focusers = '':FA#''"

definition OS_get_defined_rotator :: string where
  "OS_get_defined_rotator = '':rA#''"

definition OS_get_temperature :: string where
  "OS_get_temperature = '':GX9A#''"

definition OS_get_pressure :: string where
  "OS_get_pressure = '':GX9B#''"

definition OS_get_humidity :: string where
  "OS_get_humidity = '':GX9C#''"

definition OS_get_dew_point :: string where
  "OS_get_dew_point = '':GX9E#''"

definition OS_get_defined_features :: string where
  "OS_get_defined_features = '':GXY0#''"

definition WEATHER_MEASUREMENTS_COUNT :: nat where
  "WEATHER_MEASUREMENTS_COUNT = 4"

text \<open>
  The members of \<^verbatim>\<open>class OnStep_Aux\<close> that the protocol engine and the discovery read and
  write. The header initialises \<^verbatim>\<open>OSTimeoutSeconds = 0\<close>, \<^verbatim>\<open>OSTimeoutMicroSeconds = 100000\<close>,
  \<^verbatim>\<open>waitingForResponse = false\<close>, the capability flags and \<^verbatim>\<open>weather_tab_enabled\<close> to
  \<^verbatim>\<open>false\<close>, and leaves \<^verbatim>\<open>int weather_enabled[WEATHER_MEASUREMENTS_COUNT]\<close> as it is.
  \<open>firmware\<close> is the text of \<^verbatim>\<open>Status_ItemsT[STATUS_FIRMWARE]\<close>.
\<close>

record onstep_aux = driver +
  OSTimeoutSeconds :: int
  OSTimeoutMicroSeconds :: int
  waitingForResponse :: bool
  hasFocuser :: bool
  hasRotator :: bool
  hasWeather :: bool
  hasFeatures :: bool
  weather_enabled :: "int list"
  weather_tab_enabled :: bool
  firmware :: string

subsection \<open>The sequencing guard\<close>

text \<open>
  \<^verbatim>\<open>
    void OnStep_Aux::blockUntilClear() {
        while (waitingForResponse) {
            usleep(((OSTimeoutSeconds * 1000000) + OSTimeoutMicroSeconds) / 10);
        }
        waitingForResponse = true;
    }
  \<close>
  The driver runs its protocol work on one thread, and nothing in the loop writes the flag.
\<close>

partial_function (option) blockUntilClear_wait :: "onstep_aux \<Rightarrow> onstep_aux option" where
  "blockUntilClear_wait s = (if waitingForResponse s then blockUntilClear_wait s else Some s)"

definition blockUntilClear :: "onstep_aux \<Rightarrow> unit outcome \<times> onstep_aux" where
  "blockUntilClear s =
     (case blockUntilClear_wait s of
        None \<Rightarrow> (Hangs, s)
      | Some s1 \<Rightarrow> (Returns (), s1\<lparr>waitingForResponse := True\<rparr>))"

definition clearBlock :: "onstep_aux \<Rightarrow> onstep_aux" where
  "clearBlock s = s\<lparr>waitingForResponse := False\<rparr>"

subsection \<open>The transactions\<close>

text \<open>
  \<^verbatim>\<open>bool OnStep_Aux::sendOSCommandBlind(const char *cmd)\<close> does not take the guard
  (``No need to block this command as there is no response'') and clears it when the write
  fails.
\<close>

definition OnStep_Aux_sendOSCommandBlind :: "string \<Rightarrow> onstep_aux \<Rightarrow> bool outcome \<times> onstep_aux" where
  "OnStep_Aux_sendOSCommandBlind cmd s =
     then_do (flushIO s) (\<lambda>_ s1.
       let s2 = tcflush TCIFLUSH s1;
           (error_type, s3) = tty_write_string cmd s2
       in if error_type \<noteq> tty_code TTY_OK then (Returns False, clearBlock s3)
          else (Returns True, s3))"

text \<open>\<^verbatim>\<open>bool OnStep_Aux::sendOSCommand(const char *cmd)\<close>.\<close>

definition OnStep_Aux_sendOSCommand :: "string \<Rightarrow> onstep_aux \<Rightarrow> bool outcome \<times> onstep_aux" where
  "OnStep_Aux_sendOSCommand cmd s =
     then_do (blockUntilClear s) (\<lambda>_ s0.
     then_do (flushIO s0) (\<lambda>_ s1.
       let s2 = tcflush TCIFLUSH s1;
           (error_type, s3) = tty_write_string cmd s2
       in if error_type \<noteq> tty_code TTY_OK then (Returns (error_type \<noteq> 0), s3)
          else
            then_do (tty_read_expanded [NUL] 1 (OSTimeoutSeconds s3) (OSTimeoutMicroSeconds s3) s3)
              (\<lambda>(error_type, nbytes_read, response) s4.
                 let s5 = clearBlock (tcflush TCIFLUSH s4)
                 in if nbytes_read < 1 then (Returns False, s5)
                    else (Returns (response ! 0 = CHR ''0''), s5))))"

text \<open>
  \<^verbatim>\<open>int OnStep_Aux::getCommandSingleCharResponse(int fd, char *data, const char *cmd)\<close>.
\<close>

definition OnStep_Aux_getCommandSingleCharResponse ::
  "string \<Rightarrow> string \<Rightarrow> onstep_aux \<Rightarrow> (int \<times> string) outcome \<times> onstep_aux" where
  "OnStep_Aux_getCommandSingleCharResponse data cmd s =
     then_do (blockUntilClear s) (\<lambda>_ s0.
     then_do (flushIO s0) (\<lambda>_ s1.
       let (error_type, s3) = tty_write_string cmd s1
       in if error_type \<noteq> tty_code TTY_OK then (Returns (error_type, data), s3)
          else
            then_do (tty_read_expanded data 1 (OSTimeoutSeconds s3) (OSTimeoutMicroSeconds s3) s3)
              (\<lambda>(error_type, nbytes_read, data1) s4.
                 let s5 = tcflush TCIFLUSH s4
                 in if error_type \<noteq> tty_code TTY_OK then (Returns (error_type, data1), s5)
                    else
                      then_do (terminate_response data1 nbytes_read, s5) (\<lambda>data2 s6.
                        (Returns (nbytes_read, data2), clearBlock s6)))))"

text \<open>
  \<^verbatim>\<open>int OnStep_Aux::getCommandDoubleResponse(int fd, double *value, char *data, const char *cmd)\<close>.
\<close>

definition OnStep_Aux_getCommandDoubleResponse ::
  "'d clib \<Rightarrow> 'd \<Rightarrow> string \<Rightarrow> string \<Rightarrow> onstep_aux \<Rightarrow>
     (int \<times> 'd \<times> string) outcome \<times> onstep_aux" where
  "OnStep_Aux_getCommandDoubleResponse L val data cmd s =
     then_do (blockUntilClear s) (\<lambda>_ s0.
     then_do (flushIO s0) (\<lambda>_ s1.
       let s2 = tcflush TCIFLUSH s1;
           (error_type, s3) = tty_write_string cmd s2
       in if error_type \<noteq> tty_code TTY_OK then (Returns (error_type, val, data), s3)
          else
            then_do (tty_read_section_expanded data CHR ''#''
                       (OSTimeoutSeconds s3) (OSTimeoutMicroSeconds s3) s3)
              (\<lambda>(error_type, nbytes_read, data1) s4.
                 let s5 = tcflush TCIFLUSH s4
                 in then_do (terminate_response data1 nbytes_read, s5) (\<lambda>data2 s6.
                      let s7 = clearBlock s6
                      in if error_type \<noteq> tty_code TTY_OK
                         then (Returns (error_type, val, data2), tcflush TCIOFLUSH s7)
                         else
                           (case sscanf_lf L (c_str data2) of
                              None \<Rightarrow> (Returns (RES_ERR_FORMAT, val, data2), tcflush TCIOFLUSH s7)
                            | Some v \<Rightarrow> (Returns (nbytes_read, v, data2), s7))))))"

text \<open>
  \<^verbatim>\<open>int OnStep_Aux::getCommandIntResponse(int fd, int *value, char *data, const char *cmd)\<close>
  reads \<^verbatim>\<open>sizeof(char)\<close> bytes, that is one.
\<close>

definition OnStep_Aux_getCommandIntResponse ::
  "'d clib \<Rightarrow> int \<Rightarrow> string \<Rightarrow> string \<Rightarrow> onstep_aux \<Rightarrow>
     (int \<times> int \<times> string) outcome \<times> onstep_aux" where
  "OnStep_Aux_getCommandIntResponse L val data cmd s =
     then_do (blockUntilClear s) (\<lambda>_ s0.
     then_do (flushIO s0) (\<lambda>_ s1.
       let s2 = tcflush TCIFLUSH s1;
           (error_type, s3) = tty_write_string cmd s2
       in if error_type \<noteq> tty_code TTY_OK then (Returns (error_type, val, data), s3)
          else
            then_do (tty_read_expanded data 1 (OSTimeoutSeconds s3) (OSTimeoutMicroSeconds s3) s3)
              (\<lambda>(error_type, nbytes_read, data1) s4.
                 let s5 = tcflush TCIFLUSH s4
                 in then_do (terminate_response data1 nbytes_read, s5) (\<lambda>data2 s6.
                      let s7 = clearBlock s6
                      in if error_type \<noteq> tty_code TTY_OK
                         then (Returns (error_type, val, data2), tcflush TCIOFLUSH s7)
                         else
                           (case sscanf_i L (c_str data2) of
                              None \<Rightarrow> (Returns (RES_ERR_FORMAT, val, data2), tcflush TCIOFLUSH s7)
                            | Some v \<Rightarrow> (Returns (nbytes_read, v, data2), s7))))))"

text \<open>
  \<^verbatim>\<open>int OnStep_Aux::getCommandSingleCharErrorOrLongResponse(int fd, char *data, const char *cmd)\<close>.
\<close>

definition OnStep_Aux_getCommandSingleCharErrorOrLongResponse ::
  "string \<Rightarrow> string \<Rightarrow> onstep_aux \<Rightarrow> (int \<times> string) outcome \<times> onstep_aux" where
  "OnStep_Aux_getCommandSingleCharErrorOrLongResponse data cmd s =
     then_do (blockUntilClear s) (\<lambda>_ s0.
     then_do (flushIO s0) (\<lambda>_ s1.
       let s2 = tcflush TCIFLUSH s1;
           (error_type, s3) = tty_write_string cmd s2
       in if error_type \<noteq> tty_code TTY_OK then (Returns (error_type, data), s3)
          else
            then_do (tty_read_section_expanded data CHR ''#''
                       (OSTimeoutSeconds s3) (OSTimeoutMicroSeconds s3) s3)
              (\<lambda>(error_type, nbytes_read, data1) s4.
                 let s5 = tcflush TCIFLUSH s4
                 in then_do (terminate_response data1 nbytes_read, s5) (\<lambda>data2 s6.
                      let s7 = clearBlock s6
                      in if error_type \<noteq> tty_code TTY_OK then (Returns (error_type, data2), s7)
                         else (Returns (nbytes_read, data2), s7)))))"

subsection \<open>Handshake and capability discovery\<close>

text \<open>
  The command of one turn of the weather loop of \<^verbatim>\<open>GetCapabilites\<close>:
  \<^verbatim>\<open>switch(measurement)\<close> over \<^verbatim>\<open>WEATHER_TEMPERATURE\<close> (0), \<^verbatim>\<open>WEATHER_PRESSURE\<close> (1),
  \<^verbatim>\<open>WEATHER_HUMIDITY\<close> (2) and \<^verbatim>\<open>WEATHER_DEW_POINT\<close> (3); the \<^verbatim>\<open>default\<close> case, which
  the loop never reaches, copies nothing.
\<close>

definition weather_command :: "nat \<Rightarrow> string" where
  "weather_command measurement =
     (if measurement = 0 then OS_get_temperature
      else if measurement = 1 then OS_get_pressure
      else if measurement = 2 then OS_get_humidity
      else if measurement = 3 then OS_get_dew_point
      else [])"

text \<open>
  The weather loop, from its turn \<open>measurement\<close> on; \<^verbatim>\<open>response\<close> is the one buffer of
  \<^verbatim>\<open>GetCapabilites\<close>, used again by every probe. \<^verbatim>\<open>weather_enabled\<close> has
  \<^verbatim>\<open>WEATHER_MEASUREMENTS_COUNT\<close> entries and the loop indexes inside it.
\<close>

function discover_weather ::
  "nat \<Rightarrow> string \<Rightarrow> onstep_aux \<Rightarrow> string outcome \<times> onstep_aux" where
  "discover_weather measurement response s =
     (if measurement < WEATHER_MEASUREMENTS_COUNT then
        (case OnStep_Aux_getCommandSingleCharErrorOrLongResponse response
                (weather_command measurement) s of
           (Returns (error_or_fail, response1), s1) \<Rightarrow>
             discover_weather (measurement + 1) response1
               (if error_or_fail > 1 \<and> c_str response1 \<noteq> ''N/A''
                   \<and> c_str response1 \<noteq> ''nan'' \<and> c_str response1 \<noteq> ''0''
                then s1\<lparr>weather_enabled := (weather_enabled s1)[measurement := 1],
                        hasWeather := True\<rparr>
                else s1\<lparr>weather_enabled := (weather_enabled s1)[measurement := 0]\<rparr>)
         | (Throws e, s1) \<Rightarrow> (Throws e, s1)
         | (Hangs, s1) \<Rightarrow> (Hangs, s1)
         | (Undefined, s1) \<Rightarrow> (Undefined, s1))
      else (Returns response, s))"
  by pat_completeness auto
termination
  by (relation "measure (\<lambda>(measurement, response, s). WEATHER_MEASUREMENTS_COUNT - measurement)")
    auto

declare discover_weather.simps [simp del]

text \<open>
  \<^verbatim>\<open>void OnStep_Aux::GetCapabilites()\<close> of src/drivers/auxiliary/onstep_aux.cpp.
  \<^verbatim>\<open>std::stof(response)\<close> is evaluated whatever the firmware probe returned, and no
  handler for its exceptions stands in \<^verbatim>\<open>GetCapabilites\<close>, \<^verbatim>\<open>Handshake\<close> or
  \<^verbatim>\<open>Connect\<close>. The logging and the slow timer started at the end leave the members
  modelled here as they are.
\<close>

definition OnStep_Aux_GetCapabilites :: "'d clib \<Rightarrow> onstep_aux \<Rightarrow> unit outcome \<times> onstep_aux" where
  "OnStep_Aux_GetCapabilites L s =
     then_do (OnStep_Aux_getCommandSingleCharErrorOrLongResponse
                (replicate RB_MAX_LEN NUL) OS_get_firmware s)
       (\<lambda>(error_or_fail, response) s1.
          let s2 = (if error_or_fail > 1 then s1\<lparr>firmware := c_str response\<rparr> else s1)
          in case stof L (c_str response) of
               Inl e \<Rightarrow> (Throws e, s2)
             | Inr version \<Rightarrow>
          then_do (OnStep_Aux_getCommandIntResponse L 0 response OS_get_defined_focusers s2)
       (\<lambda>(error_or_fail, intResponse, response) s3.
          let s4 = (if error_or_fail > 0 \<and> intResponse > 0 then s3\<lparr>hasFocuser := True\<rparr> else s3)
          in
          then_do (OnStep_Aux_getCommandIntResponse L intResponse response OS_get_defined_rotator s4)
       (\<lambda>(error_or_fail, intResponse, response) s5.
          let s6 = (if error_or_fail > 0 \<and> intResponse > 0 then s5\<lparr>hasRotator := True\<rparr> else s5)
          in
          then_do (discover_weather 0 response s6)
       (\<lambda>response s7.
          let weatherDisabled =
                sum_list (map (\<lambda>wmeasure. weather_enabled s7 ! wmeasure)
                              [1 ..< WEATHER_MEASUREMENTS_COUNT]);
              s8 = (if weatherDisabled > 0 then s7\<lparr>weather_tab_enabled := True\<rparr> else s7)
          in
          then_do (OnStep_Aux_getCommandSingleCharErrorOrLongResponse
                     response OS_get_defined_features s8)
       (\<lambda>(error_or_fail, response) s9.
          if error_or_fail > 1 then
            (case stoi L (c_str response) of
               Inl e \<Rightarrow> (Throws e, s9)
             | Inr features \<Rightarrow>
                 (Returns (), if features > 0 then s9\<lparr>hasFeatures := True\<rparr> else s9))
          else (Returns (), s9))))))"

text \<open>
  \<^verbatim>\<open>bool OnStep_Aux::Handshake()\<close>: the descriptor comes from the active connection, and
  \<^verbatim>\<open>handshake_status\<close> is a \<^verbatim>\<open>bool\<close> that is assigned the \<^verbatim>\<open>int\<close> result of the
  handshake transaction.
\<close>

definition OnStep_Aux_Handshake :: "'d clib \<Rightarrow> onstep_aux \<Rightarrow> bool outcome \<times> onstep_aux" where
  "OnStep_Aux_Handshake L s =
     (let s0 = (case activeConnection s of
                  Serial \<Rightarrow> s\<lparr>PortFD := connectionPortFD s\<rparr>
                | TCP \<Rightarrow> s\<lparr>PortFD := connectionPortFD s\<rparr>)
      in if PortFD s0 < 0 then (Returns False, s0)
         else
           then_do (OnStep_Aux_getCommandSingleCharErrorOrLongResponse
                      (replicate RB_MAX_LEN NUL) OS_handshake s0)
             (\<lambda>(r, response) s1.
                let handshake_status = (r \<noteq> 0)
                in if c_str response = ''On-Step'' then
                     then_do (OnStep_Aux_GetCapabilites L s1) (\<lambda>_ s2. (Returns True, s2))
                   else (Returns handshake_status, s1)))"

text \<open>
  \<^verbatim>\<open>bool OnStep_Aux::updateProperties()\<close>, as far as it touches the members modelled here:
  the only assignments to the timeout pair in the driver. The framework calls it when the
  connection state has changed.
\<close>

definition OnStep_Aux_updateProperties :: "onstep_aux \<Rightarrow> bool \<times> onstep_aux" where
  "OnStep_Aux_updateProperties s =
     (if isConnected s then
        (True,
         if name (activeConnection s) = ''CONNECTION_TCP''
         then s\<lparr>OSTimeoutMicroSeconds := 0, OSTimeoutSeconds := 2\<rparr>
         else s\<lparr>OSTimeoutMicroSeconds := 100000, OSTimeoutSeconds := 0\<rparr>)
      else (False, s))"

section \<open>An instance of the library conversions\<close>

text \<open>
  Modelled from the spec: an instance of the conversions, to run the model on decimal
  numerals. Every conversion skips white space, takes an optional sign and the decimal
  digits that follow, and fails when no digit follows (\<^verbatim>\<open>atoi\<close> gives 0 then); the integer
  part stands for a floating point value. On a numeral that does not start with the digit 0
  these are the values that the integer conversions of the C library give.
\<close>

definition isspace :: "char \<Rightarrow> bool" where
  "isspace c \<longleftrightarrow> (of_char c :: nat) = 32 \<or> (9 \<le> (of_char c :: nat) \<and> (of_char c :: nat) \<le> 13)"

definition isdigit :: "char \<Rightarrow> bool" where
  "isdigit c \<longleftrightarrow> 48 \<le> (of_char c :: nat) \<and> (of_char c :: nat) \<le> 57"

definition decimal_prefix :: "string \<Rightarrow> int option" where
  "decimal_prefix t =
     (let t1 = dropWhile isspace t;
          negative = (t1 \<noteq> [] \<and> hd t1 = CHR ''-'');
          t2 = (if t1 \<noteq> [] \<and> (hd t1 = CHR ''-'' \<or> hd t1 = CHR ''+'') then tl t1 else t1);
          ds = takeWhile isdigit t2;
          n = foldl (\<lambda>a c. 10 * a + (of_char c - 48)) 0 ds
      in if ds = [] then None else Some (if negative then - n else n))"

definition decimal_clib :: "int clib" where
  "decimal_clib =
     \<lparr>sscanf_i = decimal_prefix,
      sscanf_lf = decimal_prefix,
      stof = (\<lambda>t. case decimal_prefix t of None \<Rightarrow> Inl Invalid_argument | Some v \<Rightarrow> Inr v),
      stoi = (\<lambda>t. case decimal_prefix t of None \<Rightarrow> Inl Invalid_argument | Some v \<Rightarrow> Inr v),
      atoi = (\<lambda>t. case decimal_prefix t of None \<Rightarrow> 0 | Some v \<Rightarrow> v)\<rparr>"

text \<open>The timeout pair that a call hands to the transport, for the calls that wait.\<close>

fun read_timeout :: "tty_call \<Rightarrow> (int \<times> int) option" where
  "read_timeout (Read_expanded nbytes timeout_seconds timeout_microseconds) =
     Some (timeout_seconds, timeout_microseconds)"
| "read_timeout (Read_section_expanded stop_char timeout_seconds timeout_microseconds) =
     Some (timeout_seconds, timeout_microseconds)"
| "read_timeout (Tcflush q) = None"
| "read_timeout (Write_string buf) = None"

text \<open>
  Every waiting call of a list is made with the pair \<open>T\<close> or with the pair of the
  pre-flush, 0 seconds and 1000 microseconds.
\<close>

definition reads_with :: "int \<times> int \<Rightarrow> tty_call list \<Rightarrow> bool" where
  "reads_with T cs =
     list_all (\<lambda>c. read_timeout c = None \<or> read_timeout c = Some (0, 1000)
                   \<or> read_timeout c = Some T) cs"

text \<open>
  From \<open>s\<close> to \<open>s'\<close> the timeout pair of the auxiliary driver has stayed, and the calls
  made in between have waited with it.
\<close>

definition advances :: "onstep_aux \<Rightarrow> onstep_aux \<Rightarrow> bool" where
  "advances s s' \<longleftrightarrow>
     OSTimeoutSeconds s' = OSTimeoutSeconds s
     \<and> OSTimeoutMicroSeconds s' = OSTimeoutMicroSeconds s
     \<and> (\<exists>new. calls s' = calls s @ new
            \<and> reads_with (OSTimeoutSeconds s, OSTimeoutMicroSeconds s) new)"

section \<open>The drivers as constructed\<close>

text \<open>
  The members as the headers initialise them, on a connection that supplies the descriptor
  \<open>fd\<close> and a transport whose writes return \<open>ws\<close> and whose reads return \<open>rs\<close>. The
  dome framework has stored the descriptor in \<^verbatim>\<open>PortFD\<close> before it calls
  \<^verbatim>\<open>OCS::Handshake\<close>; \<^verbatim>\<open>OnStep_Aux\<close> starts with \<^verbatim>\<open>PortFD { -1 }\<close> and with whatever
  \<open>we\<close> the array \<^verbatim>\<open>weather_enabled\<close> holds.
\<close>

definition OCS_constructed :: "connection \<Rightarrow> int \<Rightarrow> int list \<Rightarrow> (int \<times> string) list \<Rightarrow> ocs" where
  "OCS_constructed conn fd ws rs =
     \<lparr>PortFD = fd, activeConnection = conn, connectionPortFD = fd, isConnected = False,
      writes = ws, reads = rs, calls = [],
      OCSTimeoutSeconds = 0, OCSTimeoutMicroSeconds = 100000,
      ROOF_TIME_PRE_MOTION = 0, ROOF_TIME_POST_MOTION = 0, capability = []\<rparr>"

definition OnStep_Aux_constructed ::
  "connection \<Rightarrow> int \<Rightarrow> int list \<Rightarrow> (int \<times> string) list \<Rightarrow> int list \<Rightarrow> onstep_aux" where
  "OnStep_Aux_constructed conn fd ws rs we =
     \<lparr>PortFD = - 1, activeConnection = conn, connectionPortFD = fd, isConnected = False,
      writes = ws, reads = rs, calls = [],
      OSTimeoutSeconds = 0, OSTimeoutMicroSeconds = 100000, waitingForResponse = False,
      hasFocuser = False, hasRotator = False, hasWeather = False, hasFeatures = False,
      weather_enabled = we, weather_tab_enabled = False, firmware = []\<rparr>"

text \<open>The auxiliary driver once \<^verbatim>\<open>Handshake\<close> has taken the descriptor of the connection.\<close>

definition OnStep_Aux_opened ::
  "connection \<Rightarrow> int \<Rightarrow> int list \<Rightarrow> (int \<times> string) list \<Rightarrow> int list \<Rightarrow> onstep_aux" where
  "OnStep_Aux_opened conn fd ws rs we = (OnStep_Aux_constructed conn fd ws rs we)\<lparr>PortFD := fd\<rparr>"

text \<open>
  Two sessions for running the model: what the reads return when an OnStep controller, or
  an OCS, answers the handshake and every probe. Each transaction takes two results, the
  discard read of its pre-flush, which times out, and the read of the response.
\<close>

definition OnStep_answers :: "(int \<times> string) list" where
  "OnStep_answers =
     [(tty_code TTY_TIME_OUT, []), (tty_code TTY_OK, ''On-Step#''),
      (tty_code TTY_TIME_OUT, []), (tty_code TTY_OK, ''10.26g#''),
      (tty_code TTY_TIME_OUT, []), (tty_code TTY_OK, ''1''),
      (tty_code TTY_TIME_OUT, []), (tty_code TTY_OK, ''1''),
      (tty_code TTY_TIME_OUT, []), (tty_code TTY_OK, ''21.5#''),
      (tty_code TTY_TIME_OUT, []), (tty_code TTY_OK, ''nan#''),
      (tty_code TTY_TIME_OUT, []), (tty_code TTY_OK, ''45.1#''),
      (tty_code TTY_TIME_OUT, []), (tty_code TTY_OK, ''N/A#''),
      (tty_code TTY_TIME_OUT, []), (tty_code TTY_OK, ''10000000#'')]"

definition OCS_answers :: "(int \<times> string) list" where
  "OCS_answers =
     [(tty_code TTY_TIME_OUT, []), (tty_code TTY_OK, ''OCS#''),
      (tty_code TTY_TIME_OUT, []), (tty_code TTY_OK, ''H#''),
      (tty_code TTY_TIME_OUT, []), (tty_code TTY_OK, ''2.0,3.0#'')]"

text \<open>
  Buffers of \<^verbatim>\<open>RB_MAX_LEN\<close> bytes for running the framing step, each as a read into
  a zeroed array leaves it: after the four bytes \<^verbatim>\<open>ERR#\<close>; after the four bytes a, NUL,
  b and the terminator; after 64 letters with no terminator among them; and after 63
  letters and a NUL byte.
\<close>

definition terminated_buffer :: string where
  "terminated_buffer = ''ERR#'' @ replicate 60 NUL"

definition noisy_buffer :: string where
  "noisy_buffer = [CHR ''a'', NUL, CHR ''b'', CHR ''#''] @ replicate 60 NUL"

definition full_buffer :: string where
  "full_buffer = replicate 64 (CHR ''a'')"

definition closed_buffer :: string where
  "closed_buffer = replicate 63 (CHR ''a'') @ [NUL]"

section \<open>Auxiliary facts\<close>


lemma blockUntilClear_wait_clear: "\<not> waitingForResponse s \<Longrightarrow> blockUntilClear_wait s = Some s"
  by (subst blockUntilClear_wait.simps) simp

lemma blockUntilClear_wait_Some:
  assumes "blockUntilClear_wait s = Some t"
  shows "\<not> waitingForResponse s"
  using assms
  by (rule blockUntilClear_wait.raw_induct [rotated 1, where P = "\<lambda>s t. \<not> waitingForResponse s"])
    (auto split: if_splits)

lemma blockUntilClear_wait_busy: "waitingForResponse s \<Longrightarrow> blockUntilClear_wait s = None"
  using blockUntilClear_wait_Some [of s] by (cases "blockUntilClear_wait s") auto

lemma blockUntilClear_wait_code [code]:
  "blockUntilClear_wait s = (if waitingForResponse s then None else Some s)"
  by (simp add: blockUntilClear_wait_clear blockUntilClear_wait_busy)

lemma blockUntilClear_clear:
  "\<not> waitingForResponse s \<Longrightarrow> blockUntilClear s = (Returns (), s\<lparr>waitingForResponse := True\<rparr>)"
  by (simp add: blockUntilClear_def blockUntilClear_wait_clear)

lemma blockUntilClear_busy: "waitingForResponse s \<Longrightarrow> blockUntilClear s = (Hangs, s)"
  by (simp add: blockUntilClear_def blockUntilClear_wait_busy)

lemma then_do_simps [simp]:
  "then_do (Returns x, s) f = f x s"
  "then_do (Throws e, s) f = (Throws e, s)"
  "then_do (Hangs, s) f = (Hangs, s)"
  "then_do (Undefined, s) f = (Undefined, s)"
  by (simp_all add: then_do_def)

lemma next_write_tcflush [simp]: "next_write (tcflush q s) = next_write s"
  by (simp add: next_write_def tcflush_def)

lemma next_read_tcflush [simp]: "next_read (tcflush q s) = next_read s"
  by (simp add: next_read_def tcflush_def)

lemma next_read_write [simp]: "next_read (snd (tty_write_string cmd s)) = next_read s"
  by (simp add: next_read_def tty_write_string_def)

lemma fst_write [simp]: "fst (tty_write_string cmd s) = next_write s"
  by (simp add: tty_write_string_def)

lemma flushIO_loop_shape: "\<exists>rs cs. snd (flushIO_loop s) = s\<lparr>reads := rs, calls := cs\<rparr>"
proof (induction s rule: flushIO_loop.induct)
  case (1 s)
  let ?r = "tty_read_section_expanded (replicate RB_MAX_LEN NUL) CHR ''#'' 0 1000 s"
  have shape: "\<exists>rs cs. snd ?r = s\<lparr>reads := rs, calls := cs\<rparr>"
    by (auto simp: tty_read_section_expanded_def then_do_def store_bytes_def Let_def)
  show ?case
  proof (cases ?r)
    case (Pair out s1)
    with shape obtain rs cs where s1: "s1 = s\<lparr>reads := rs, calls := cs\<rparr>" by auto
    show ?thesis
    proof (cases out)
      case (Returns x)
      obtain error_type nbytes_read discard_data where x: "x = (error_type, nbytes_read, discard_data)"
        by (cases x) auto
      show ?thesis
      proof (cases "error_type > 0")
        case True
        from "1.IH" [OF Pair [symmetric] Returns x [symmetric] refl True]
        obtain rs' cs' where "snd (flushIO_loop s1) = s1\<lparr>reads := rs', calls := cs'\<rparr>" by auto
        with Pair Returns x True s1 show ?thesis
          by (subst flushIO_loop.simps) auto
      next
        case False
        with Pair Returns x s1 show ?thesis
          by (subst flushIO_loop.simps) auto
      qed
    next
      case (Throws e)
      with Pair s1 show ?thesis by (subst flushIO_loop.simps) auto
    next
      case Hangs
      with Pair s1 show ?thesis by (subst flushIO_loop.simps) auto
    next
      case Undefined
      with Pair s1 show ?thesis by (subst flushIO_loop.simps) auto
    qed
  qed
qed

lemma flushIO_shape:
  assumes "flushIO s = (out, s1)"
  shows "\<exists>rs cs. s1 = s\<lparr>reads := rs, calls := cs\<rparr>"
proof -
  obtain rs cs where
    "snd (flushIO_loop (tcflush TCIOFLUSH (tcflush TCIOFLUSH s))) =
       (tcflush TCIOFLUSH (tcflush TCIOFLUSH s))\<lparr>reads := rs, calls := cs\<rparr>"
    using flushIO_loop_shape by blast
  with assms show ?thesis
    by (cases "flushIO_loop (tcflush TCIOFLUSH (tcflush TCIOFLUSH s))")
      (auto simp: flushIO_def then_do_def tcflush_def split: outcome.splits)
qed




lemma read_section_waiting:
  "tty_read_section_expanded buf c a b (t\<lparr>waitingForResponse := w\<rparr>) =
     (fst (tty_read_section_expanded buf c a b t),
      (snd (tty_read_section_expanded buf c a b t))\<lparr>waitingForResponse := w\<rparr>)"
  by (simp add: tty_read_section_expanded_def store_bytes_def next_read_def Let_def)

lemma flushIO_loop_waiting:
  "flushIO_loop (t\<lparr>waitingForResponse := w\<rparr>) =
     (fst (flushIO_loop t), (snd (flushIO_loop t))\<lparr>waitingForResponse := w\<rparr>)"
proof (induction t rule: flushIO_loop.induct)
  case (1 t)
  let ?r = "tty_read_section_expanded (replicate RB_MAX_LEN NUL) CHR ''#'' 0 1000 t"
  obtain out t1 where r: "?r = (out, t1)" by (cases ?r)
  show ?case
  proof (cases out)
    case (Returns x)
    obtain error_type nbytes_read discard_data where x: "x = (error_type, nbytes_read, discard_data)"
      by (cases x) auto
    show ?thesis
    proof (cases "error_type > 0")
      case True
      note IH = "1.IH" [OF r [symmetric] Returns x [symmetric] refl True]
      show ?thesis
        apply (subst flushIO_loop.simps)
        apply (subst (2 3) flushIO_loop.simps)
        using r Returns x True IH
        apply (simp add: read_section_waiting)
        done
    next
      case False
      show ?thesis
        apply (subst flushIO_loop.simps)
        apply (subst (2 3) flushIO_loop.simps)
        using r Returns x False
        apply (simp add: read_section_waiting)
        done
    qed
  next
    case (Throws e)
    show ?thesis
      apply (subst flushIO_loop.simps)
      apply (subst (2 3) flushIO_loop.simps)
      using r Throws
      apply (simp add: read_section_waiting)
      done
  next
    case Hangs
    show ?thesis
      apply (subst flushIO_loop.simps)
      apply (subst (2 3) flushIO_loop.simps)
      using r Hangs
      apply (simp add: read_section_waiting)
      done
  next
    case Undefined
    show ?thesis
      apply (subst flushIO_loop.simps)
      apply (subst (2 3) flushIO_loop.simps)
      using r Undefined
      apply (simp add: read_section_waiting)
      done
  qed
qed

lemma flushIO_waiting:
  "flushIO (t\<lparr>waitingForResponse := w\<rparr>) =
     (fst (flushIO t), (snd (flushIO t))\<lparr>waitingForResponse := w\<rparr>)"
proof -
  have "tcflush TCIOFLUSH (tcflush TCIOFLUSH (t\<lparr>waitingForResponse := w\<rparr>)) =
        (tcflush TCIOFLUSH (tcflush TCIOFLUSH t))\<lparr>waitingForResponse := w\<rparr>"
    by (simp add: tcflush_def)
  then show ?thesis
    by (cases "flushIO_loop (tcflush TCIOFLUSH (tcflush TCIOFLUSH t))")
      (auto simp: flushIO_def flushIO_loop_waiting then_do_def split: outcome.splits)
qed

lemma flushIO_writes [simp]: "next_write (snd (flushIO s)) = next_write s"
proof -
  obtain out s1 where f: "flushIO s = (out, s1)" by (cases "flushIO s")
  from flushIO_shape [OF f] obtain rs cs where "s1 = s\<lparr>reads := rs, calls := cs\<rparr>" by blast
  with f show ?thesis by (simp add: next_write_def)
qed

lemma flushIO_waitingForResponse [simp]:
  "waitingForResponse (snd (flushIO s)) = waitingForResponse s"
proof -
  obtain out s1 where f: "flushIO s = (out, s1)" by (cases "flushIO s")
  from flushIO_shape [OF f] obtain rs cs where "s1 = s\<lparr>reads := rs, calls := cs\<rparr>" by blast
  with f show ?thesis by simp
qed

lemma next_write_waiting [simp]: "next_write (s\<lparr>waitingForResponse := w\<rparr>) = next_write s"
  by (simp add: next_write_def)

lemma next_read_waiting [simp]: "next_read (s\<lparr>waitingForResponse := w\<rparr>) = next_read s"
  by (simp add: next_read_def)

lemma waiting_tcflush [simp]: "waitingForResponse (tcflush q s) = waitingForResponse s"
  by (simp add: tcflush_def)

lemma waiting_write [simp]:
  "waitingForResponse (snd (tty_write_string cmd s)) = waitingForResponse s"
  by (simp add: tty_write_string_def)

lemma OCS_sendOCSCommand_write_failed:
  assumes "fst (flushIO s) = Returns r" and "next_write s \<noteq> tty_code TTY_OK"
  shows "fst (OCS_sendOCSCommand cmd s) = Returns True"
proof -
  obtain s1 where f: "flushIO s = (Returns r, s1)"
    using assms(1) by (cases "flushIO s") auto
  have "next_write s1 = next_write s"
    using flushIO_writes [of s] f by simp
  with assms(2) f show ?thesis
    by (simp add: OCS_sendOCSCommand_def split_beta Let_def)
qed

lemma OCS_sendOCSCommand_digit:
  assumes "fst (flushIO s) = Returns r" and "next_write s = tty_code TTY_OK"
    and "snd (next_read (snd (flushIO s))) = [c]"
  shows "fst (OCS_sendOCSCommand cmd s) = Returns (c = CHR ''0'')"
proof -
  obtain s1 where f: "flushIO s = (Returns r, s1)"
    using assms(1) by (cases "flushIO s") auto
  have "next_write s1 = next_write s"
    using flushIO_writes [of s] f by simp
  with assms(2,3) f show ?thesis
    by (simp add: OCS_sendOCSCommand_def split_beta Let_def tty_read_expanded_def store_bytes_def)
qed

lemma OnStep_Aux_sendOSCommand_write_failed:
  assumes "\<not> waitingForResponse s" and "fst (flushIO s) = Returns r"
    and "next_write s \<noteq> tty_code TTY_OK"
  shows "fst (OnStep_Aux_sendOSCommand cmd s) = Returns True"
    and "waitingForResponse (snd (OnStep_Aux_sendOSCommand cmd s))"
proof -
  obtain s1 where f: "flushIO s = (Returns r, s1)"
    using assms(2) by (cases "flushIO s") auto
  have w: "next_write s1 = next_write s"
    using flushIO_writes [of s] f by simp
  from assms(1,3) f w show "fst (OnStep_Aux_sendOSCommand cmd s) = Returns True"
    by (simp add: OnStep_Aux_sendOSCommand_def blockUntilClear_clear flushIO_waiting
        split_beta Let_def)
  from assms(1,3) f w show "waitingForResponse (snd (OnStep_Aux_sendOSCommand cmd s))"
    by (simp add: OnStep_Aux_sendOSCommand_def blockUntilClear_clear flushIO_waiting
        split_beta Let_def)
qed

lemma OnStep_Aux_sendOSCommand_digit:
  assumes "\<not> waitingForResponse s" and "fst (flushIO s) = Returns r"
    and "next_write s = tty_code TTY_OK"
    and "snd (next_read (snd (flushIO s))) = [c]"
  shows "fst (OnStep_Aux_sendOSCommand cmd s) = Returns (c = CHR ''0'')"
proof -
  obtain s1 where f: "flushIO s = (Returns r, s1)"
    using assms(2) by (cases "flushIO s") auto
  have w: "next_write s1 = next_write s"
    using flushIO_writes [of s] f by simp
  from assms(1,3,4) f w show ?thesis
    by (simp add: OnStep_Aux_sendOSCommand_def blockUntilClear_clear flushIO_waiting
        split_beta Let_def tty_read_expanded_def store_bytes_def)
qed

lemma OnStep_Aux_write_failed:
  assumes "\<not> waitingForResponse s" and "fst (flushIO s) = Returns r"
    and "next_write s \<noteq> tty_code TTY_OK"
  shows "fst (OnStep_Aux_getCommandSingleCharResponse data cmd s) = Returns (next_write s, data)"
    and "waitingForResponse (snd (OnStep_Aux_getCommandSingleCharResponse data cmd s))"
    and "fst (OnStep_Aux_getCommandDoubleResponse L d data cmd s) = Returns (next_write s, d, data)"
    and "waitingForResponse (snd (OnStep_Aux_getCommandDoubleResponse L d data cmd s))"
    and "fst (OnStep_Aux_getCommandIntResponse L i data cmd s) = Returns (next_write s, i, data)"
    and "waitingForResponse (snd (OnStep_Aux_getCommandIntResponse L i data cmd s))"
    and "fst (OnStep_Aux_getCommandSingleCharErrorOrLongResponse data cmd s)
           = Returns (next_write s, data)"
    and "waitingForResponse (snd (OnStep_Aux_getCommandSingleCharErrorOrLongResponse data cmd s))"
proof -
  obtain s1 where f: "flushIO s = (Returns r, s1)"
    using assms(2) by (cases "flushIO s") auto
  have w: "next_write s1 = next_write s" "waitingForResponse s1 = waitingForResponse s"
    using flushIO_writes [of s] flushIO_waitingForResponse [of s] f by simp_all
  note defs = OnStep_Aux_getCommandSingleCharResponse_def OnStep_Aux_getCommandDoubleResponse_def
    OnStep_Aux_getCommandIntResponse_def OnStep_Aux_getCommandSingleCharErrorOrLongResponse_def
    blockUntilClear_clear flushIO_waiting split_beta Let_def
  from assms(1,3) f w
  show "fst (OnStep_Aux_getCommandSingleCharResponse data cmd s) = Returns (next_write s, data)"
    and "waitingForResponse (snd (OnStep_Aux_getCommandSingleCharResponse data cmd s))"
    and "fst (OnStep_Aux_getCommandDoubleResponse L d data cmd s) = Returns (next_write s, d, data)"
    and "waitingForResponse (snd (OnStep_Aux_getCommandDoubleResponse L d data cmd s))"
    and "fst (OnStep_Aux_getCommandIntResponse L i data cmd s) = Returns (next_write s, i, data)"
    and "waitingForResponse (snd (OnStep_Aux_getCommandIntResponse L i data cmd s))"
    and "fst (OnStep_Aux_getCommandSingleCharErrorOrLongResponse data cmd s)
           = Returns (next_write s, data)"
    and "waitingForResponse (snd (OnStep_Aux_getCommandSingleCharErrorOrLongResponse data cmd s))"
    by (simp_all add: defs)
qed

lemma OnStep_Aux_guard_taken:
  assumes "waitingForResponse s"
  shows "OnStep_Aux_sendOSCommand cmd s = (Hangs, s)"
    and "OnStep_Aux_getCommandSingleCharResponse data cmd s = (Hangs, s)"
    and "OnStep_Aux_getCommandDoubleResponse L d data cmd s = (Hangs, s)"
    and "OnStep_Aux_getCommandIntResponse L i data cmd s = (Hangs, s)"
    and "OnStep_Aux_getCommandSingleCharErrorOrLongResponse data cmd s = (Hangs, s)"
  using assms
  by (simp_all add: OnStep_Aux_sendOSCommand_def OnStep_Aux_getCommandSingleCharResponse_def
      OnStep_Aux_getCommandDoubleResponse_def OnStep_Aux_getCommandIntResponse_def
      OnStep_Aux_getCommandSingleCharErrorOrLongResponse_def blockUntilClear_busy)

lemma read_section_calls:
  "calls (snd (tty_read_section_expanded buf c a b s)) = calls s @ [Read_section_expanded c a b]"
  by (simp add: tty_read_section_expanded_def store_bytes_def Let_def)

lemma flushIO_loop_calls:
  "\<exists>n. calls (snd (flushIO_loop s)) =
         calls s @ replicate (Suc n) (Read_section_expanded CHR ''#'' 0 1000)"
proof (induction s rule: flushIO_loop.induct)
  case (1 s)
  let ?R = "Read_section_expanded CHR ''#'' 0 1000"
  let ?r = "tty_read_section_expanded (replicate RB_MAX_LEN NUL) CHR ''#'' 0 1000 s"
  obtain out s1 where r: "?r = (out, s1)" by (cases ?r)
  have c1: "calls s1 = calls s @ [?R]"
    using read_section_calls [of "replicate RB_MAX_LEN NUL" "CHR ''#''" 0 1000 s] r by simp
  show ?case
  proof (cases out)
    case (Returns x)
    obtain error_type nbytes_read discard_data where x: "x = (error_type, nbytes_read, discard_data)"
      by (cases x) auto
    show ?thesis
    proof (cases "error_type > 0")
      case True
      from "1.IH" [OF r [symmetric] Returns x [symmetric] refl True]
      obtain n where "calls (snd (flushIO_loop s1)) = calls s1 @ replicate (Suc n) ?R" by blast
      with c1 have "calls (snd (flushIO_loop s1)) = calls s @ replicate (Suc (Suc n)) ?R"
        by (simp add: replicate_app_Cons_same)
      moreover have "flushIO_loop s = flushIO_loop s1"
        using r Returns x True by (subst flushIO_loop.simps) simp
      ultimately show ?thesis by metis
    next
      case False
      have "flushIO_loop s = (Returns (), s1)"
        using r Returns x False by (subst flushIO_loop.simps) simp
      with c1 have "calls (snd (flushIO_loop s)) = calls s @ replicate (Suc 0) ?R" by simp
      then show ?thesis by blast
    qed
  next
    case (Throws e)
    have "flushIO_loop s = (Throws e, s1)"
      using r Throws by (subst flushIO_loop.simps) simp
    with c1 have "calls (snd (flushIO_loop s)) = calls s @ replicate (Suc 0) ?R" by simp
    then show ?thesis by blast
  next
    case Hangs
    have "flushIO_loop s = (Hangs, s1)"
      using r Hangs by (subst flushIO_loop.simps) simp
    with c1 have "calls (snd (flushIO_loop s)) = calls s @ replicate (Suc 0) ?R" by simp
    then show ?thesis by blast
  next
    case Undefined
    have "flushIO_loop s = (Undefined, s1)"
      using r Undefined by (subst flushIO_loop.simps) simp
    with c1 have "calls (snd (flushIO_loop s)) = calls s @ replicate (Suc 0) ?R" by simp
    then show ?thesis by blast
  qed
qed

lemma flushIO_loop_once:
  assumes "fst (next_read s) \<le> 0"
  shows "calls (snd (flushIO_loop s)) = calls s @ [Read_section_expanded CHR ''#'' 0 1000]"
    and "reads (snd (flushIO_loop s)) = tl (reads s)"
  using assms
  by (subst flushIO_loop.simps;
      simp add: tty_read_section_expanded_def store_bytes_def Let_def)+

lemma snd_flushIO:
  "snd (flushIO s) = snd (flushIO_loop (tcflush TCIOFLUSH (tcflush TCIOFLUSH s)))"
  by (cases "flushIO_loop (tcflush TCIOFLUSH (tcflush TCIOFLUSH s))")
    (auto simp: flushIO_def then_do_def split: outcome.splits)

lemma strchr_zeros: "strchr (replicate RB_MAX_LEN NUL) c = Returns None" if "c \<noteq> NUL"
  using that by (simp add: strchr_def RB_MAX_LEN_def)

lemma terminate_zeros:
  "terminate_response (replicate RB_MAX_LEN NUL) 0 = Returns (replicate RB_MAX_LEN NUL)"
  by (simp add: terminate_response_def strchr_def poke_def RB_MAX_LEN_def NUL_def
      list_update_same_conv)

lemma c_str_zeros: "c_str (replicate RB_MAX_LEN NUL) = []"
  by (simp add: c_str_def RB_MAX_LEN_def)

lemma OCS_long_no_bytes:
  assumes "reads s = (e0, bs0) # (e, []) # rs" and "e0 \<le> 0" and "length bs0 \<le> RB_MAX_LEN"
    and "next_write s = tty_code TTY_OK" and "e \<noteq> 0"
  shows "OCS_getCommandSingleCharErrorOrLongResponse (replicate RB_MAX_LEN NUL) cmd s =
           (Returns (e, replicate RB_MAX_LEN NUL),
            s\<lparr>reads := rs, writes := tl (writes s),
              calls := calls s @ [Tcflush TCIOFLUSH, Tcflush TCIOFLUSH,
                Read_section_expanded CHR ''#'' 0 1000, Tcflush TCIFLUSH, Write_string cmd,
                Read_section_expanded CHR ''#'' (OCSTimeoutSeconds s) (OCSTimeoutMicroSeconds s),
                Tcflush TCIFLUSH]\<rparr>)"
  using assms
  by (simp add: OCS_getCommandSingleCharErrorOrLongResponse_def flushIO_def flushIO_loop.simps
      tcflush_def tty_read_section_expanded_def store_bytes_def next_read_def next_write_def
      tty_write_string_def Let_def terminate_zeros)


lemma OnStep_Aux_long_no_bytes:
  assumes "\<not> waitingForResponse s"
    and "reads s = (e0, bs0) # (e, []) # rs" and "e0 \<le> 0" and "length bs0 \<le> RB_MAX_LEN"
    and "next_write s = tty_code TTY_OK" and "e \<noteq> 0"
  shows "OnStep_Aux_getCommandSingleCharErrorOrLongResponse (replicate RB_MAX_LEN NUL) cmd s =
           (Returns (e, replicate RB_MAX_LEN NUL),
            s\<lparr>reads := rs, writes := tl (writes s),
              calls := calls s @ [Tcflush TCIOFLUSH, Tcflush TCIOFLUSH,
                Read_section_expanded CHR ''#'' 0 1000, Tcflush TCIFLUSH, Write_string cmd,
                Read_section_expanded CHR ''#'' (OSTimeoutSeconds s) (OSTimeoutMicroSeconds s),
                Tcflush TCIFLUSH]\<rparr>)"
  using assms
  by (simp add: OnStep_Aux_getCommandSingleCharErrorOrLongResponse_def blockUntilClear_clear
      clearBlock_def flushIO_def flushIO_loop.simps
      tcflush_def tty_read_section_expanded_def store_bytes_def next_read_def next_write_def
      tty_write_string_def Let_def terminate_zeros)

lemmas run = flushIO_loop.simps flushIO_def tcflush_def tty_read_section_expanded_def
  store_bytes_def next_read_def RB_MAX_LEN_def tty_write_string_def next_write_def
  tty_read_expanded_def Let_def NUL_def

lemma RES_ERR_FORMAT_distinct: "RES_ERR_FORMAT \<noteq> tty_code e"
  by (cases e) (simp_all add: RES_ERR_FORMAT_def)

lemmas transaction_defs = flushIO_def flushIO_loop.simps tcflush_def
  tty_read_section_expanded_def tty_read_expanded_def store_bytes_def next_read_def
  next_write_def tty_write_string_def Let_def blockUntilClear_clear clearBlock_def

lemma OCS_int_format_error:
  assumes "reads s = (e0, bs0) # (tty_code TTY_OK, bs) # rs"
    and "e0 \<le> 0" and "length bs0 \<le> RB_MAX_LEN" and "next_write s = tty_code TTY_OK"
    and "length bs \<le> length data"
    and "terminate_response (bs @ drop (length bs) data) (int (length bs)) = Returns data2"
    and "sscanf_i L (c_str data2) = None"
  shows "fst (OCS_getCommandIntResponse L v data cmd s) = Returns (RES_ERR_FORMAT, v, data2)"
    and "last (calls (snd (OCS_getCommandIntResponse L v data cmd s))) = Tcflush TCIOFLUSH"
  using assms by (simp_all add: OCS_getCommandIntResponse_def transaction_defs)

lemma OCS_double_format_error:
  assumes "reads s = (e0, bs0) # (tty_code TTY_OK, bs) # rs"
    and "e0 \<le> 0" and "length bs0 \<le> RB_MAX_LEN" and "next_write s = tty_code TTY_OK"
    and "length bs \<le> length data"
    and "terminate_response (bs @ drop (length bs) data) (int (length bs)) = Returns data2"
    and "sscanf_lf L (c_str data2) = None"
  shows "fst (OCS_getCommandDoubleResponse L d data cmd s) = Returns (RES_ERR_FORMAT, d, data2)"
    and "last (calls (snd (OCS_getCommandDoubleResponse L d data cmd s))) = Tcflush TCIOFLUSH"
  using assms by (simp_all add: OCS_getCommandDoubleResponse_def transaction_defs)

lemma OnStep_Aux_int_format_error:
  assumes "\<not> waitingForResponse t"
    and "reads t = (e0, bs0) # (tty_code TTY_OK, bs) # rs"
    and "e0 \<le> 0" and "length bs0 \<le> RB_MAX_LEN" and "next_write t = tty_code TTY_OK"
    and "length (take 1 bs) \<le> length data"
    and "terminate_response (take 1 bs @ drop (length (take 1 bs)) data) (int (length (take 1 bs)))
           = Returns data2"
    and "sscanf_i L (c_str data2) = None"
  shows "fst (OnStep_Aux_getCommandIntResponse L v data cmd t) = Returns (RES_ERR_FORMAT, v, data2)"
    and "last (calls (snd (OnStep_Aux_getCommandIntResponse L v data cmd t))) = Tcflush TCIOFLUSH"
  using assms by (simp_all add: OnStep_Aux_getCommandIntResponse_def transaction_defs)

lemma OnStep_Aux_double_format_error:
  assumes "\<not> waitingForResponse t"
    and "reads t = (e0, bs0) # (tty_code TTY_OK, bs) # rs"
    and "e0 \<le> 0" and "length bs0 \<le> RB_MAX_LEN" and "next_write t = tty_code TTY_OK"
    and "length bs \<le> length data"
    and "terminate_response (bs @ drop (length bs) data) (int (length bs)) = Returns data2"
    and "sscanf_lf L (c_str data2) = None"
  shows "fst (OnStep_Aux_getCommandDoubleResponse L d data cmd t) = Returns (RES_ERR_FORMAT, d, data2)"
    and "last (calls (snd (OnStep_Aux_getCommandDoubleResponse L d data cmd t))) = Tcflush TCIOFLUSH"
  using assms by (simp_all add: OnStep_Aux_getCommandDoubleResponse_def transaction_defs)



lemma strchr_found:
  assumes "k < length data" and "data ! k = c"
    and "\<forall>j<k. data ! j \<noteq> c \<and> data ! j \<noteq> NUL"
  shows "strchr data c = Returns (Some k)"
proof -
  have "takeWhile (\<lambda>x. x \<noteq> c \<and> x \<noteq> NUL) data = take k data"
    using assms by (intro takeWhile_eq_take_P_nth) auto
  with assms show ?thesis by (simp add: strchr_def)
qed

lemma c_str_cut:
  assumes "k < length data" and "data ! k = NUL" and "\<forall>j<k. data ! j \<noteq> NUL"
  shows "c_str data = take k data"
  unfolding c_str_def using assms by (intro takeWhile_eq_take_P_nth) auto

lemma strchr_Cons:
  "strchr (x # xs) c =
     (if x = c then Returns (Some 0)
      else if x = NUL then Returns None
      else (case strchr xs c of
              Returns (Some i) \<Rightarrow> Returns (Some (Suc i))
            | Returns None \<Rightarrow> Returns None
            | Throws e \<Rightarrow> Throws e
            | Hangs \<Rightarrow> Hangs
            | Undefined \<Rightarrow> Undefined))"
  by (simp add: strchr_def Let_def)

lemma strchr_absent:
  assumes "NUL \<in> set data" and "c \<notin> set (c_str data)" and "c \<noteq> NUL"
  shows "strchr data c = Returns None"
  using assms
proof (induction data)
  case Nil
  then show ?case by simp
next
  case (Cons x xs)
  then show ?case
    by (cases "x = NUL") (auto simp: strchr_Cons c_str_def)
qed

lemma c_str_length_le:
  assumes "k < length data" and "data ! k = NUL"
  shows "length (c_str data) \<le> k"
proof (rule ccontr)
  assume "\<not> length (c_str data) \<le> k"
  then have "k < length (takeWhile (\<lambda>x. x \<noteq> NUL) data)" by (simp add: c_str_def)
  then have "data ! k \<noteq> NUL"
    using nth_mem [of k "takeWhile (\<lambda>x. x \<noteq> NUL) data"] takeWhile_nth [of k "\<lambda>x. x \<noteq> NUL" data]
      set_takeWhileD [of "data ! k" "\<lambda>x. x \<noteq> NUL" data]
    by auto
  with assms(2) show False by simp
qed


lemma OnStep_Aux_getCommandSingleCharResponse_read_failed:
  assumes "\<not> waitingForResponse s"
    and "reads s = (e0, bs0) # (e, bs) # rs" and "e0 \<le> 0" and "length bs0 \<le> RB_MAX_LEN"
    and "next_write s = tty_code TTY_OK" and "e \<noteq> tty_code TTY_OK"
    and "length (take 1 bs) \<le> length data"
  shows "fst (OnStep_Aux_getCommandSingleCharResponse data cmd s) =
           Returns (e, take 1 bs @ drop (length (take 1 bs)) data)"
    and "waitingForResponse (snd (OnStep_Aux_getCommandSingleCharResponse data cmd s))"
  using assms
  by (simp_all add: OnStep_Aux_getCommandSingleCharResponse_def transaction_defs)

lemma OnStep_Aux_sendOSCommandBlind_write_failed:
  assumes "fst (flushIO s) = Returns r" and "next_write s \<noteq> tty_code TTY_OK"
  shows "fst (OnStep_Aux_sendOSCommandBlind cmd s) = Returns False"
    and "\<not> waitingForResponse (snd (OnStep_Aux_sendOSCommandBlind cmd s))"
proof -
  obtain s1 where f: "flushIO s = (Returns r, s1)"
    using assms(1) by (cases "flushIO s") auto
  have w: "next_write s1 = next_write s"
    using flushIO_writes [of s] f by simp
  from assms(2) f w show "fst (OnStep_Aux_sendOSCommandBlind cmd s) = Returns False"
    and "\<not> waitingForResponse (snd (OnStep_Aux_sendOSCommandBlind cmd s))"
    by (simp_all add: OnStep_Aux_sendOSCommandBlind_def split_beta Let_def clearBlock_def)
qed

lemma reads_with_simps [simp]:
  "reads_with T []"
  "reads_with T (c # cs) \<longleftrightarrow>
     (read_timeout c = None \<or> read_timeout c = Some (0, 1000) \<or> read_timeout c = Some T)
     \<and> reads_with T cs"
  "reads_with T (as @ bs) \<longleftrightarrow> reads_with T as \<and> reads_with T bs"
  by (simp_all add: reads_with_def)

lemma reads_with_replicate [simp]:
  "reads_with T (replicate n (Read_section_expanded c 0 1000))"
  by (induction n) simp_all

lemma advances_refl [simp]: "advances s s"
  by (simp add: advances_def)

lemma advances_trans: "advances s s1 \<Longrightarrow> advances s1 s2 \<Longrightarrow> advances s s2"
  by (auto simp: advances_def)

lemma then_do_advances:
  assumes "advances s (snd m)"
    and "\<And>x s1. m = (Returns x, s1) \<Longrightarrow> advances s1 (snd (f x s1))"
  shows "advances s (snd (then_do m f))"
proof (cases m)
  case (Pair out s1)
  show ?thesis
  proof (cases out)
    case (Returns x)
    with Pair assms(1) assms(2) [of x s1] show ?thesis
      by (auto intro: advances_trans)
  qed (use Pair assms(1) in auto)
qed

lemma flushIO_calls:
  "\<exists>n. calls (snd (flushIO s)) =
         calls s @ [Tcflush TCIOFLUSH, Tcflush TCIOFLUSH]
           @ replicate (Suc n) (Read_section_expanded CHR ''#'' 0 1000)"
proof -
  let ?s = "tcflush TCIOFLUSH (tcflush TCIOFLUSH s)"
  obtain n where "calls (snd (flushIO_loop ?s)) =
      calls ?s @ replicate (Suc n) (Read_section_expanded CHR ''#'' 0 1000)"
    using flushIO_loop_calls by blast
  then have "calls (snd (flushIO s)) =
      calls s @ [Tcflush TCIOFLUSH, Tcflush TCIOFLUSH]
        @ replicate (Suc n) (Read_section_expanded CHR ''#'' 0 1000)"
    by (simp add: snd_flushIO tcflush_def)
  then show ?thesis by blast
qed

lemma flushIO_advances: "advances s (snd (flushIO s))"
proof -
  obtain out s1 where f: "flushIO s = (out, s1)" by (cases "flushIO s")
  from flushIO_shape [OF f] obtain rs cs where s1: "s1 = s\<lparr>reads := rs, calls := cs\<rparr>" by blast
  obtain n where "calls (snd (flushIO s)) =
         calls s @ [Tcflush TCIOFLUSH, Tcflush TCIOFLUSH]
           @ replicate (Suc n) (Read_section_expanded CHR ''#'' 0 1000)"
    using flushIO_calls by blast
  with f s1 show ?thesis
    by (auto simp: advances_def simp del: replicate_Suc)
qed

lemma blockUntilClear_advances: "advances s (snd (blockUntilClear s))"
  by (cases "waitingForResponse s")
    (simp_all add: blockUntilClear_busy blockUntilClear_clear advances_def)

lemmas step_defs = advances_def split_beta Let_def tty_write_string_def tcflush_def
  tty_read_section_expanded_def tty_read_expanded_def store_bytes_def then_do_def clearBlock_def

lemma long_advances:
  "advances s (snd (OnStep_Aux_getCommandSingleCharErrorOrLongResponse data cmd s))"
  unfolding OnStep_Aux_getCommandSingleCharErrorOrLongResponse_def
  apply (rule then_do_advances [OF blockUntilClear_advances])
  apply (rule then_do_advances [OF flushIO_advances])
  apply (auto simp: step_defs split: outcome.splits)
  done

lemma int_advances:
  "advances s (snd (OnStep_Aux_getCommandIntResponse L v data cmd s))"
  unfolding OnStep_Aux_getCommandIntResponse_def
  apply (rule then_do_advances [OF blockUntilClear_advances])
  apply (rule then_do_advances [OF flushIO_advances])
  apply (auto simp: step_defs split: outcome.splits option.splits)
  done


lemma advances_updates [simp]:
  "advances (s\<lparr>firmware := f\<rparr>) s' = advances s s'"
  "advances s (s'\<lparr>firmware := f\<rparr>) = advances s s'"
  "advances (s\<lparr>hasFocuser := b\<rparr>) s' = advances s s'"
  "advances s (s'\<lparr>hasFocuser := b\<rparr>) = advances s s'"
  "advances (s\<lparr>hasRotator := b\<rparr>) s' = advances s s'"
  "advances s (s'\<lparr>hasRotator := b\<rparr>) = advances s s'"
  "advances (s\<lparr>hasWeather := b\<rparr>) s' = advances s s'"
  "advances s (s'\<lparr>hasWeather := b\<rparr>) = advances s s'"
  "advances (s\<lparr>hasFeatures := b\<rparr>) s' = advances s s'"
  "advances s (s'\<lparr>hasFeatures := b\<rparr>) = advances s s'"
  "advances (s\<lparr>weather_tab_enabled := b\<rparr>) s' = advances s s'"
  "advances s (s'\<lparr>weather_tab_enabled := b\<rparr>) = advances s s'"
  "advances (s\<lparr>weather_enabled := w\<rparr>) s' = advances s s'"
  "advances s (s'\<lparr>weather_enabled := w\<rparr>) = advances s s'"
  "advances (s\<lparr>PortFD := fd\<rparr>) s' = advances s s'"
  "advances s (s'\<lparr>PortFD := fd\<rparr>) = advances s s'"
  by (simp_all add: advances_def)

lemma discover_weather_advances: "advances s (snd (discover_weather measurement response s))"
proof (induction measurement response s rule: discover_weather.induct)
  case (1 measurement response s)
  show ?case
  proof (cases "measurement < WEATHER_MEASUREMENTS_COUNT")
    case False
    then show ?thesis by (subst discover_weather.simps) simp
  next
    case True
    let ?p = "OnStep_Aux_getCommandSingleCharErrorOrLongResponse response
                (weather_command measurement) s"
    obtain out s1 where p: "?p = (out, s1)" by (cases ?p)
    have a: "advances s s1"
      using long_advances [of s response "weather_command measurement"] p by simp
    show ?thesis
    proof (cases out)
      case (Returns x)
      obtain error_or_fail response1 where x: "x = (error_or_fail, response1)" by (cases x)
      let ?s2 = "if error_or_fail > 1 \<and> c_str response1 \<noteq> ''N/A''
                   \<and> c_str response1 \<noteq> ''nan'' \<and> c_str response1 \<noteq> ''0''
                then s1\<lparr>weather_enabled := (weather_enabled s1)[measurement := 1],
                        hasWeather := True\<rparr>
                else s1\<lparr>weather_enabled := (weather_enabled s1)[measurement := 0]\<rparr>"
      have "advances ?s2 (snd (discover_weather (measurement + 1) response1 ?s2))"
        using "1.IH" [OF True p [symmetric] Returns x [symmetric]] by simp
      moreover have "advances s1 ?s2" by simp
      ultimately have "advances s1 (snd (discover_weather (measurement + 1) response1 ?s2))"
        using advances_trans by blast
      with a have "advances s (snd (discover_weather (measurement + 1) response1 ?s2))"
        by (rule advances_trans)
      moreover have "discover_weather measurement response s =
          discover_weather (measurement + 1) response1 ?s2"
        using True p Returns x by (subst discover_weather.simps) simp
      ultimately show ?thesis by simp
    next
      case (Throws e)
      with True p a show ?thesis by (subst discover_weather.simps) simp
    next
      case Hangs
      with True p a show ?thesis by (subst discover_weather.simps) simp
    next
      case Undefined
      with True p a show ?thesis by (subst discover_weather.simps) simp
    qed
  qed
qed

lemma then_do_advances2:
  assumes "advances s s2" and "advances s2 (snd m)"
    and "\<And>x s1. m = (Returns x, s1) \<Longrightarrow> advances s1 (snd (f x s1))"
  shows "advances s (snd (then_do m f))"
  using advances_trans [OF assms(1) then_do_advances [of s2 m f, OF assms(2,3)]] by simp

lemma GetCapabilites_advances: "advances s (snd (OnStep_Aux_GetCapabilites L s))"
  unfolding OnStep_Aux_GetCapabilites_def
  apply (rule then_do_advances [OF long_advances])
  apply (clarsimp simp: Let_def split: sum.splits split del: if_split)
  apply (intro conjI impI)
   apply simp
  apply (rule then_do_advances2 [OF _ int_advances])
   apply simp
  apply (clarsimp simp: Let_def split del: if_split)
  apply (rule then_do_advances2 [OF _ int_advances])
   apply simp
  apply (clarsimp simp: Let_def split del: if_split)
  apply (rule then_do_advances2 [OF _ discover_weather_advances])
   apply simp
  apply (rule then_do_advances2 [OF _ long_advances])
   apply simp
  apply (clarsimp simp: Let_def split: sum.splits)
  done

lemma Handshake_advances: "advances s (snd (OnStep_Aux_Handshake L s))"
proof -
  have "advances (s\<lparr>PortFD := connectionPortFD s\<rparr>)
          (snd (then_do (OnStep_Aux_getCommandSingleCharErrorOrLongResponse
                      (replicate RB_MAX_LEN NUL) OS_handshake (s\<lparr>PortFD := connectionPortFD s\<rparr>))
             (\<lambda>(r, response) s1.
                let handshake_status = (r \<noteq> 0)
                in if c_str response = ''On-Step'' then
                     then_do (OnStep_Aux_GetCapabilites L s1) (\<lambda>_ s2. (Returns True, s2))
                   else (Returns handshake_status, s1))))"
    apply (rule then_do_advances [OF long_advances])
    apply (clarsimp simp: Let_def)
    apply (rule then_do_advances [OF GetCapabilites_advances])
    apply simp
    done
  then show ?thesis
    unfolding OnStep_Aux_Handshake_def
    by (cases "activeConnection s") (simp_all add: Let_def)
qed

section \<open>The success/fail accessors\<close>

text \<open>
  C8. A setter command sent through \<^verbatim>\<open>sendOCSCommand\<close> or \<^verbatim>\<open>sendOSCommand\<close>:
  when the pre-flush has returned, the write has succeeded and the read has delivered the
  single byte \<open>c\<close>, the call returns \<^verbatim>\<open>true\<close> when \<open>c\<close> is the character 0 and
  \<^verbatim>\<open>false\<close> for every other byte. (\<^verbatim>\<open>sendOSCommand\<close> is entered with the sequencing
  guard free.)
\<close>

theorem digit_response_convention:
  "(fst (flushIO s) = Returns r \<and> next_write s = tty_code TTY_OK
      \<and> snd (next_read (snd (flushIO s))) = [c]
      \<longrightarrow> fst (OCS_sendOCSCommand cmd s) = Returns (c = CHR ''0''))
   \<and> (\<not> waitingForResponse t \<and> fst (flushIO t) = Returns r' \<and> next_write t = tty_code TTY_OK
      \<and> snd (next_read (snd (flushIO t))) = [c']
      \<longrightarrow> fst (OnStep_Aux_sendOSCommand cmd' t) = Returns (c' = CHR ''0''))"
  using OCS_sendOCSCommand_digit [of s r c cmd] OnStep_Aux_sendOSCommand_digit [of t r' c' cmd']
  by blast

theorem digit_response_convention_witness:
  "fst (OCS_sendOCSCommand '':SH21#''
          (OCS_constructed Serial 3 [] [(- 4, []), (0, ''0'')])) = Returns True
   \<and> fst (OnStep_Aux_sendOSCommand '':SH21#''
          (OnStep_Aux_opened Serial 3 [] [(- 4, []), (0, ''1'')] [0, 0, 0, 0])) = Returns False"
  using digit_response_convention
    [of "OCS_constructed Serial 3 [] [(- 4, []), (0, ''0'')]" 0 "CHR ''0''" "'':SH21#''"
        "OnStep_Aux_opened Serial 3 [] [(- 4, []), (0, ''1'')] [0, 0, 0, 0]" 0 "CHR ''1''"
        "'':SH21#''"]
  by (simp add: run OCS_constructed_def OnStep_Aux_opened_def OnStep_Aux_constructed_def)

text \<open>
  C10. In \<^verbatim>\<open>OCS::sendOCSCommand\<close> and \<^verbatim>\<open>OnStep_Aux::sendOSCommand\<close> a write that fails
  returns the code of the failure, which is not 0 and so converts to \<^verbatim>\<open>true\<close>: the
  result is the one of a command that the device acknowledged with the character 0, and a
  caller of the boolean interface cannot tell the two apart.
\<close>

theorem write_failure_reads_as_success:
  "(fst (flushIO s) = Returns r \<and> next_write s \<noteq> tty_code TTY_OK
      \<longrightarrow> fst (OCS_sendOCSCommand cmd s) = Returns True)
   \<and> (fst (flushIO s') = Returns r \<and> next_write s' = tty_code TTY_OK
      \<and> snd (next_read (snd (flushIO s'))) = ''0''
      \<longrightarrow> fst (OCS_sendOCSCommand cmd s') = Returns True)
   \<and> (\<not> waitingForResponse t \<and> fst (flushIO t) = Returns r' \<and> next_write t \<noteq> tty_code TTY_OK
      \<longrightarrow> fst (OnStep_Aux_sendOSCommand cmd t) = Returns True)
   \<and> (\<not> waitingForResponse t' \<and> fst (flushIO t') = Returns r' \<and> next_write t' = tty_code TTY_OK
      \<and> snd (next_read (snd (flushIO t'))) = ''0''
      \<longrightarrow> fst (OnStep_Aux_sendOSCommand cmd t') = Returns True)"
  using OCS_sendOCSCommand_write_failed [of s r cmd]
    OCS_sendOCSCommand_digit [of s' r "CHR ''0''" cmd]
    OnStep_Aux_sendOSCommand_write_failed(1) [of t r' cmd]
    OnStep_Aux_sendOSCommand_digit [of t' r' "CHR ''0''" cmd]
  by simp

theorem write_failure_reads_as_success_witness:
  "fst (OCS_sendOCSCommand '':SH21#''
          (OCS_constructed Serial 3 [tty_code TTY_WRITE_ERROR] [])) = Returns True
   \<and> fst (OCS_sendOCSCommand '':SH21#''
          (OCS_constructed Serial 3 [] [(- 4, []), (0, ''0'')])) = Returns True
   \<and> fst (OnStep_Aux_sendOSCommand '':SH21#''
          (OnStep_Aux_opened Serial 3 [tty_code TTY_WRITE_ERROR] [] [0, 0, 0, 0])) = Returns True
   \<and> fst (OnStep_Aux_sendOSCommand '':SH21#''
          (OnStep_Aux_opened Serial 3 [] [(- 4, []), (0, ''0'')] [0, 0, 0, 0])) = Returns True"
  using write_failure_reads_as_success
    [of "OCS_constructed Serial 3 [tty_code TTY_WRITE_ERROR] []" 0
        "'':SH21#''"
        "OCS_constructed Serial 3 [] [(- 4, []), (0, ''0'')]"
        "OnStep_Aux_opened Serial 3 [tty_code TTY_WRITE_ERROR] [] [0, 0, 0, 0]" 0
        "OnStep_Aux_opened Serial 3 [] [(- 4, []), (0, ''0'')] [0, 0, 0, 0]"]
  by (simp add: run OCS_constructed_def OnStep_Aux_opened_def OnStep_Aux_constructed_def)

section \<open>The sequencing guard\<close>

text \<open>
  C1. The busy flag after a guarded call. When the write of the command fails, each of
  \<^verbatim>\<open>sendOSCommand\<close>, \<^verbatim>\<open>getCommandSingleCharResponse\<close>, \<^verbatim>\<open>getCommandDoubleResponse\<close>,
  \<^verbatim>\<open>getCommandIntResponse\<close> and \<^verbatim>\<open>getCommandSingleCharErrorOrLongResponse\<close> returns
  the code of the failure with \<^verbatim>\<open>waitingForResponse\<close> still set, and the next guarded call
  never returns.
\<close>

theorem guard_held_after_failed_write:
  assumes "\<not> waitingForResponse s" and "fst (flushIO s) = Returns r"
    and "next_write s \<noteq> tty_code TTY_OK"
  shows "fst (OnStep_Aux_sendOSCommand cmd s) = Returns True
       \<and> waitingForResponse (snd (OnStep_Aux_sendOSCommand cmd s))
     \<and> fst (OnStep_Aux_getCommandSingleCharResponse data cmd s) = Returns (next_write s, data)
       \<and> waitingForResponse (snd (OnStep_Aux_getCommandSingleCharResponse data cmd s))
     \<and> fst (OnStep_Aux_getCommandDoubleResponse L d data cmd s) = Returns (next_write s, d, data)
       \<and> waitingForResponse (snd (OnStep_Aux_getCommandDoubleResponse L d data cmd s))
     \<and> fst (OnStep_Aux_getCommandIntResponse L i data cmd s) = Returns (next_write s, i, data)
       \<and> waitingForResponse (snd (OnStep_Aux_getCommandIntResponse L i data cmd s))
     \<and> fst (OnStep_Aux_getCommandSingleCharErrorOrLongResponse data cmd s)
           = Returns (next_write s, data)
       \<and> waitingForResponse (snd (OnStep_Aux_getCommandSingleCharErrorOrLongResponse data cmd s))
     \<and> fst (OnStep_Aux_sendOSCommand cmd' (snd (OnStep_Aux_sendOSCommand cmd s))) = Hangs"
  by (simp add: OnStep_Aux_sendOSCommand_write_failed [OF assms]
      OnStep_Aux_write_failed [OF assms] OnStep_Aux_guard_taken)

theorem guard_held_after_failed_write_witness:
  "waitingForResponse (snd (OnStep_Aux_sendOSCommand '':SH21#''
      (OnStep_Aux_opened Serial 3 [tty_code TTY_WRITE_ERROR] [] [0, 0, 0, 0])))
   \<and> fst (OnStep_Aux_sendOSCommand '':SH21#'' (snd (OnStep_Aux_sendOSCommand '':SH21#''
      (OnStep_Aux_opened Serial 3 [tty_code TTY_WRITE_ERROR] [] [0, 0, 0, 0])))) = Hangs"
proof -
  let ?s = "OnStep_Aux_opened Serial 3 [tty_code TTY_WRITE_ERROR] [] [0, 0, 0, 0]"
  have h1: "\<not> waitingForResponse ?s"
    by (simp add: OnStep_Aux_opened_def OnStep_Aux_constructed_def)
  have h2: "fst (flushIO ?s) = Returns 0"
    by (simp add: run OnStep_Aux_opened_def OnStep_Aux_constructed_def)
  have h3: "next_write ?s \<noteq> tty_code TTY_OK"
    by (simp add: run OnStep_Aux_opened_def OnStep_Aux_constructed_def)
  from guard_held_after_failed_write
    [OF h1 h2 h3, of "'':SH21#''" "[]" decimal_clib 0 0 "'':SH21#''"]
  show ?thesis by blast
qed

section \<open>The pre-flush drain\<close>

text \<open>
  C9, as amended. The pre-flush \<^verbatim>\<open>flushIO\<close> discards the queues twice and then issues
  one or more discard reads, each up to the terminator with a timeout of 0 seconds and 1000
  microseconds; a discard read that times out or reports an error (a negative code) is the
  only one: the drain ends with it.
\<close>

theorem pre_flush_reads:
  "(\<exists>n. calls (snd (flushIO s)) =
          calls s @ [Tcflush TCIOFLUSH, Tcflush TCIOFLUSH]
            @ replicate (Suc n) (Read_section_expanded CHR ''#'' 0 1000))
   \<and> (fst (next_read s) < 0 \<longrightarrow>
        calls (snd (flushIO s)) =
          calls s @ [Tcflush TCIOFLUSH, Tcflush TCIOFLUSH, Read_section_expanded CHR ''#'' 0 1000]
        \<and> reads (snd (flushIO s)) = tl (reads s))"
proof -
  let ?s = "tcflush TCIOFLUSH (tcflush TCIOFLUSH s)"
  have c: "calls ?s = calls s @ [Tcflush TCIOFLUSH, Tcflush TCIOFLUSH]"
    and r: "reads ?s = reads s"
    by (simp_all add: tcflush_def)
  obtain n where "calls (snd (flushIO_loop ?s)) =
      calls ?s @ replicate (Suc n) (Read_section_expanded CHR ''#'' 0 1000)"
    using flushIO_loop_calls by blast
  with c have "calls (snd (flushIO s)) =
      calls s @ [Tcflush TCIOFLUSH, Tcflush TCIOFLUSH]
        @ replicate (Suc n) (Read_section_expanded CHR ''#'' 0 1000)"
    by (simp add: snd_flushIO)
  moreover have "fst (next_read s) < 0 \<longrightarrow>
        calls (snd (flushIO s)) =
          calls s @ [Tcflush TCIOFLUSH, Tcflush TCIOFLUSH, Read_section_expanded CHR ''#'' 0 1000]
        \<and> reads (snd (flushIO s)) = tl (reads s)"
    using flushIO_loop_once [of ?s] c r by (simp add: snd_flushIO)
  ultimately show ?thesis by blast
qed

theorem pre_flush_reads_witness:
  "calls (snd (flushIO (OCS_constructed Serial 3 [] [(tty_code TTY_TIME_OUT, []), (0, ''1#'')]))) =
     [Tcflush TCIOFLUSH, Tcflush TCIOFLUSH, Read_section_expanded CHR ''#'' 0 1000]
   \<and> reads (snd (flushIO (OCS_constructed Serial 3 [] [(tty_code TTY_TIME_OUT, []), (0, ''1#'')])))
       = [(0, ''1#'')]"
  using pre_flush_reads [of "OCS_constructed Serial 3 [] [(tty_code TTY_TIME_OUT, []), (0, ''1#'')]"]
  by (simp add: next_read_def OCS_constructed_def)

text \<open>
  C9, as stated, fails: on a link where two terminated byte sequences arrive, the first in
  time for the first discard read, the drain issues that single discard read, with a
  timeout of 0 seconds and 1000 microseconds (a millisecond, not a second); the read
  succeeds, and the drain ends although no read has timed out or failed, the second
  sequence still to come.
\<close>

theorem pre_flush_counterexample:
  "fst (flushIO (OCS_constructed Serial 3 [] [(tty_code TTY_OK, ''0#''), (tty_code TTY_OK, ''1#'')]))
     = Returns 0
   \<and> calls (snd (flushIO (OCS_constructed Serial 3 []
                 [(tty_code TTY_OK, ''0#''), (tty_code TTY_OK, ''1#'')]))) =
     [Tcflush TCIOFLUSH, Tcflush TCIOFLUSH, Read_section_expanded CHR ''#'' 0 1000]
   \<and> reads (snd (flushIO (OCS_constructed Serial 3 []
                 [(tty_code TTY_OK, ''0#''), (tty_code TTY_OK, ''1#'')]))) =
     [(tty_code TTY_OK, ''1#'')]"
  by (simp add: run OCS_constructed_def)

section \<open>Handshake\<close>

text \<open>
  C2. A handshake whose command is written and whose read ends with a failure code and no
  byte (a timeout): no further command is sent and the capabilities stay as they were, but
  \<^verbatim>\<open>Handshake\<close> returns \<^verbatim>\<open>true\<close>, in the dome driver and in the auxiliary driver,
  because \<^verbatim>\<open>handshake_status\<close> holds the failure code converted to \<^verbatim>\<open>bool\<close>.
\<close>

theorem failed_handshake_returns_true:
  "(0 < PortFD s \<and> reads s = (e0, bs0) # (e, []) # rs \<and> e0 \<le> 0 \<and> length bs0 \<le> RB_MAX_LEN
      \<and> next_write s = tty_code TTY_OK \<and> e \<noteq> tty_code TTY_OK
    \<longrightarrow> fst (OCS_Handshake L s) = Returns True
      \<and> capability (snd (OCS_Handshake L s)) = capability s
      \<and> calls (snd (OCS_Handshake L s)) =
          calls s @ [Tcflush TCIOFLUSH, Tcflush TCIOFLUSH,
            Read_section_expanded CHR ''#'' 0 1000, Tcflush TCIFLUSH, Write_string OCS_handshake,
            Read_section_expanded CHR ''#'' (OCSTimeoutSeconds (snd (OCS_Handshake L s)))
              (OCSTimeoutMicroSeconds (snd (OCS_Handshake L s))),
            Tcflush TCIFLUSH])
   \<and> (0 \<le> connectionPortFD t \<and> \<not> waitingForResponse t
      \<and> reads t = (e0, bs0) # (e, []) # rs \<and> e0 \<le> 0 \<and> length bs0 \<le> RB_MAX_LEN
      \<and> next_write t = tty_code TTY_OK \<and> e \<noteq> tty_code TTY_OK
    \<longrightarrow> fst (OnStep_Aux_Handshake L' t) = Returns True
      \<and> hasFocuser (snd (OnStep_Aux_Handshake L' t)) = hasFocuser t
      \<and> hasRotator (snd (OnStep_Aux_Handshake L' t)) = hasRotator t
      \<and> hasWeather (snd (OnStep_Aux_Handshake L' t)) = hasWeather t
      \<and> hasFeatures (snd (OnStep_Aux_Handshake L' t)) = hasFeatures t
      \<and> calls (snd (OnStep_Aux_Handshake L' t)) =
          calls t @ [Tcflush TCIOFLUSH, Tcflush TCIOFLUSH,
            Read_section_expanded CHR ''#'' 0 1000, Tcflush TCIFLUSH, Write_string OS_handshake,
            Read_section_expanded CHR ''#'' (OSTimeoutSeconds t) (OSTimeoutMicroSeconds t),
            Tcflush TCIFLUSH])"
proof (intro conjI impI)
  assume a: "0 < PortFD s \<and> reads s = (e0, bs0) # (e, []) # rs \<and> e0 \<le> 0
      \<and> length bs0 \<le> RB_MAX_LEN \<and> next_write s = tty_code TTY_OK \<and> e \<noteq> tty_code TTY_OK"
  define s1 where "s1 = (if name (activeConnection s) = ''CONNECTION_TCP''
                  then s\<lparr>OCSTimeoutMicroSeconds := 0, OCSTimeoutSeconds := 2\<rparr>
                  else s\<lparr>OCSTimeoutMicroSeconds := 200000, OCSTimeoutSeconds := 0\<rparr>)"
  have "reads s1 = (e0, bs0) # (e, []) # rs" "next_write s1 = tty_code TTY_OK"
    using a by (simp_all add: s1_def next_write_def)
  with a have l: "OCS_getCommandSingleCharErrorOrLongResponse (replicate RB_MAX_LEN NUL) OCS_handshake s1 =
           (Returns (e, replicate RB_MAX_LEN NUL),
            s1\<lparr>reads := rs, writes := tl (writes s1),
              calls := calls s1 @ [Tcflush TCIOFLUSH, Tcflush TCIOFLUSH,
                Read_section_expanded CHR ''#'' 0 1000, Tcflush TCIFLUSH, Write_string OCS_handshake,
                Read_section_expanded CHR ''#'' (OCSTimeoutSeconds s1) (OCSTimeoutMicroSeconds s1),
                Tcflush TCIFLUSH]\<rparr>)"
    using OCS_long_no_bytes [of s1 e0 bs0 e rs OCS_handshake] by simp
  have h: "OCS_Handshake L s = (Returns True, s1\<lparr>reads := rs, writes := tl (writes s1),
              calls := calls s1 @ [Tcflush TCIOFLUSH, Tcflush TCIOFLUSH,
                Read_section_expanded CHR ''#'' 0 1000, Tcflush TCIFLUSH, Write_string OCS_handshake,
                Read_section_expanded CHR ''#'' (OCSTimeoutSeconds s1) (OCSTimeoutMicroSeconds s1),
                Tcflush TCIFLUSH]\<rparr>)"
    using a l unfolding OCS_Handshake_def s1_def [symmetric]
    by (simp add: Let_def c_str_zeros)
  show "fst (OCS_Handshake L s) = Returns True" using h by simp
  show "capability (snd (OCS_Handshake L s)) = capability s"
    using h by (simp add: s1_def)
  show "calls (snd (OCS_Handshake L s)) =
          calls s @ [Tcflush TCIOFLUSH, Tcflush TCIOFLUSH,
            Read_section_expanded CHR ''#'' 0 1000, Tcflush TCIFLUSH, Write_string OCS_handshake,
            Read_section_expanded CHR ''#'' (OCSTimeoutSeconds (snd (OCS_Handshake L s)))
              (OCSTimeoutMicroSeconds (snd (OCS_Handshake L s))),
            Tcflush TCIFLUSH]"
    using h by (simp add: s1_def)
next
  assume a: "0 \<le> connectionPortFD t \<and> \<not> waitingForResponse t
      \<and> reads t = (e0, bs0) # (e, []) # rs \<and> e0 \<le> 0 \<and> length bs0 \<le> RB_MAX_LEN
      \<and> next_write t = tty_code TTY_OK \<and> e \<noteq> tty_code TTY_OK"
  define t0 where "t0 = t\<lparr>PortFD := connectionPortFD t\<rparr>"
  have "reads t0 = (e0, bs0) # (e, []) # rs" "next_write t0 = tty_code TTY_OK"
    "\<not> waitingForResponse t0"
    using a by (simp_all add: t0_def next_write_def)
  with a have l: "OnStep_Aux_getCommandSingleCharErrorOrLongResponse (replicate RB_MAX_LEN NUL)
            OS_handshake t0 =
           (Returns (e, replicate RB_MAX_LEN NUL),
            t0\<lparr>reads := rs, writes := tl (writes t0),
              calls := calls t0 @ [Tcflush TCIOFLUSH, Tcflush TCIOFLUSH,
                Read_section_expanded CHR ''#'' 0 1000, Tcflush TCIFLUSH, Write_string OS_handshake,
                Read_section_expanded CHR ''#'' (OSTimeoutSeconds t0) (OSTimeoutMicroSeconds t0),
                Tcflush TCIFLUSH]\<rparr>)"
    using OnStep_Aux_long_no_bytes [of t0 e0 bs0 e rs OS_handshake] by simp
  have t0': "(case activeConnection t of
                  Serial \<Rightarrow> t\<lparr>PortFD := connectionPortFD t\<rparr>
                | TCP \<Rightarrow> t\<lparr>PortFD := connectionPortFD t\<rparr>) = t0"
    by (simp add: t0_def split: connection.splits)
  have h: "OnStep_Aux_Handshake L' t = (Returns True, t0\<lparr>reads := rs, writes := tl (writes t0),
              calls := calls t0 @ [Tcflush TCIOFLUSH, Tcflush TCIOFLUSH,
                Read_section_expanded CHR ''#'' 0 1000, Tcflush TCIFLUSH, Write_string OS_handshake,
                Read_section_expanded CHR ''#'' (OSTimeoutSeconds t0) (OSTimeoutMicroSeconds t0),
                Tcflush TCIFLUSH]\<rparr>)"
    using a l unfolding OnStep_Aux_Handshake_def t0'
    by (simp add: Let_def c_str_zeros t0_def)
  show "fst (OnStep_Aux_Handshake L' t) = Returns True" using h by simp
  show "hasFocuser (snd (OnStep_Aux_Handshake L' t)) = hasFocuser t"
    and "hasRotator (snd (OnStep_Aux_Handshake L' t)) = hasRotator t"
    and "hasWeather (snd (OnStep_Aux_Handshake L' t)) = hasWeather t"
    and "hasFeatures (snd (OnStep_Aux_Handshake L' t)) = hasFeatures t"
    and "calls (snd (OnStep_Aux_Handshake L' t)) =
          calls t @ [Tcflush TCIOFLUSH, Tcflush TCIOFLUSH,
            Read_section_expanded CHR ''#'' 0 1000, Tcflush TCIFLUSH, Write_string OS_handshake,
            Read_section_expanded CHR ''#'' (OSTimeoutSeconds t) (OSTimeoutMicroSeconds t),
            Tcflush TCIFLUSH]"
    using h by (simp_all add: t0_def)
qed

theorem failed_handshake_returns_true_witness:
  "fst (OCS_Handshake decimal_clib
         (OCS_constructed Serial 3 [] [(tty_code TTY_TIME_OUT, []), (tty_code TTY_TIME_OUT, [])]))
     = Returns True
   \<and> fst (OnStep_Aux_Handshake decimal_clib
         (OnStep_Aux_constructed Serial 3 [] [(tty_code TTY_TIME_OUT, []), (tty_code TTY_TIME_OUT, [])]
            [0, 0, 0, 0]))
     = Returns True"
  using failed_handshake_returns_true
    [of "OCS_constructed Serial 3 [] [(tty_code TTY_TIME_OUT, []), (tty_code TTY_TIME_OUT, [])]"
        "tty_code TTY_TIME_OUT" "[]" "tty_code TTY_TIME_OUT" "[]" decimal_clib
        "OnStep_Aux_constructed Serial 3 [] [(tty_code TTY_TIME_OUT, []), (tty_code TTY_TIME_OUT, [])]
            [0, 0, 0, 0]" decimal_clib]
  by (simp add: OCS_constructed_def OnStep_Aux_constructed_def next_write_def RB_MAX_LEN_def)

section \<open>The timeout profile\<close>

text \<open>
  C7. In the auxiliary driver \<^verbatim>\<open>Handshake\<close> never selects a profile: whatever the
  connection and whatever the device does, every call of the handshake and of the
  capability probes that waits does so with the timeout pair the driver had when
  \<^verbatim>\<open>Handshake\<close> was entered (the discard reads of the pre-flush with theirs), and the pair
  is the same on return. So the driver as constructed, connecting over TCP to a controller
  that answers the handshake and every probe, reads the handshake and the eight probes with
  the pair the header initialises, 0 seconds and 100000 microseconds; the network profile, 2
  seconds and 0 microseconds, is selected by \<^verbatim>\<open>updateProperties\<close>, which does so only
  once the driver is connected. The dome driver on the same kind of connection reads its
  handshake and probes with 2 seconds and 0 microseconds, selected at the start of its
  \<^verbatim>\<open>Handshake\<close>.
\<close>

theorem OnStep_Aux_probes_precede_profile:
  "advances t (snd (OnStep_Aux_Handshake L t))
   \<and> fst (OnStep_Aux_Handshake decimal_clib
          (OnStep_Aux_constructed TCP 3 [] OnStep_answers [0, 0, 0, 0])) = Returns True
   \<and> filter (\<lambda>c. read_timeout c \<noteq> None \<and> read_timeout c \<noteq> Some (0, 1000))
        (calls (snd (OnStep_Aux_Handshake decimal_clib
          (OnStep_Aux_constructed TCP 3 [] OnStep_answers [0, 0, 0, 0])))) =
       [Read_section_expanded CHR ''#'' 0 100000, Read_section_expanded CHR ''#'' 0 100000,
        Read_expanded 1 0 100000, Read_expanded 1 0 100000,
        Read_section_expanded CHR ''#'' 0 100000, Read_section_expanded CHR ''#'' 0 100000,
        Read_section_expanded CHR ''#'' 0 100000, Read_section_expanded CHR ''#'' 0 100000,
        Read_section_expanded CHR ''#'' 0 100000]
   \<and> OSTimeoutSeconds (snd (OnStep_Aux_updateProperties
        (snd (OnStep_Aux_Handshake decimal_clib
          (OnStep_Aux_constructed TCP 3 [] OnStep_answers [0, 0, 0, 0]))\<lparr>isConnected := True\<rparr>))) = 2
   \<and> OSTimeoutMicroSeconds (snd (OnStep_Aux_updateProperties
        (snd (OnStep_Aux_Handshake decimal_clib
          (OnStep_Aux_constructed TCP 3 [] OnStep_answers [0, 0, 0, 0]))\<lparr>isConnected := True\<rparr>))) = 0
   \<and> filter (\<lambda>c. read_timeout c \<noteq> None \<and> read_timeout c \<noteq> Some (0, 1000))
        (calls (snd (OCS_Handshake decimal_clib (OCS_constructed TCP 3 [] OCS_answers)))) =
       [Read_section_expanded CHR ''#'' 2 0, Read_section_expanded CHR ''#'' 2 0,
        Read_section_expanded CHR ''#'' 2 0]"
proof -
  have "fst (OnStep_Aux_Handshake decimal_clib
          (OnStep_Aux_constructed TCP 3 [] OnStep_answers [0, 0, 0, 0])) = Returns True
   \<and> filter (\<lambda>c. read_timeout c \<noteq> None \<and> read_timeout c \<noteq> Some (0, 1000))
        (calls (snd (OnStep_Aux_Handshake decimal_clib
          (OnStep_Aux_constructed TCP 3 [] OnStep_answers [0, 0, 0, 0])))) =
       [Read_section_expanded CHR ''#'' 0 100000, Read_section_expanded CHR ''#'' 0 100000,
        Read_expanded 1 0 100000, Read_expanded 1 0 100000,
        Read_section_expanded CHR ''#'' 0 100000, Read_section_expanded CHR ''#'' 0 100000,
        Read_section_expanded CHR ''#'' 0 100000, Read_section_expanded CHR ''#'' 0 100000,
        Read_section_expanded CHR ''#'' 0 100000]
   \<and> OSTimeoutSeconds (snd (OnStep_Aux_updateProperties
        (snd (OnStep_Aux_Handshake decimal_clib
          (OnStep_Aux_constructed TCP 3 [] OnStep_answers [0, 0, 0, 0]))\<lparr>isConnected := True\<rparr>))) = 2
   \<and> OSTimeoutMicroSeconds (snd (OnStep_Aux_updateProperties
        (snd (OnStep_Aux_Handshake decimal_clib
          (OnStep_Aux_constructed TCP 3 [] OnStep_answers [0, 0, 0, 0]))\<lparr>isConnected := True\<rparr>))) = 0
   \<and> filter (\<lambda>c. read_timeout c \<noteq> None \<and> read_timeout c \<noteq> Some (0, 1000))
        (calls (snd (OCS_Handshake decimal_clib (OCS_constructed TCP 3 [] OCS_answers)))) =
       [Read_section_expanded CHR ''#'' 2 0, Read_section_expanded CHR ''#'' 2 0,
        Read_section_expanded CHR ''#'' 2 0]"
    by code_simp
  with Handshake_advances [of t L] show ?thesis by blast
qed

section \<open>Capability discovery\<close>

text \<open>
  C5. A firmware-version probe that fails in \<^verbatim>\<open>GetCapabilites\<close>: the command is written
  and the read ends with a failure code and no byte. \<^verbatim>\<open>std::stof\<close> is then applied to the
  empty text, and with a conversion that throws on the empty text (\<^verbatim>\<open>std::invalid_argument\<close>)
  the exception leaves \<^verbatim>\<open>GetCapabilites\<close> before any subsystem probe: the firmware
  transaction is the only one on the transport and the capability flags are as they were.
\<close>

theorem firmware_probe_failure_aborts_discovery:
  assumes "stof L [] = Inl x" and "\<not> waitingForResponse t"
    and "reads t = (e0, bs0) # (e, []) # rs" and "e0 \<le> 0" and "length bs0 \<le> RB_MAX_LEN"
    and "next_write t = tty_code TTY_OK" and "e \<noteq> tty_code TTY_OK"
  shows "fst (OnStep_Aux_GetCapabilites L t) = Throws x
     \<and> calls (snd (OnStep_Aux_GetCapabilites L t)) =
          calls t @ [Tcflush TCIOFLUSH, Tcflush TCIOFLUSH,
            Read_section_expanded CHR ''#'' 0 1000, Tcflush TCIFLUSH, Write_string OS_get_firmware,
            Read_section_expanded CHR ''#'' (OSTimeoutSeconds t) (OSTimeoutMicroSeconds t),
            Tcflush TCIFLUSH]
     \<and> hasFocuser (snd (OnStep_Aux_GetCapabilites L t)) = hasFocuser t
     \<and> hasRotator (snd (OnStep_Aux_GetCapabilites L t)) = hasRotator t
     \<and> hasWeather (snd (OnStep_Aux_GetCapabilites L t)) = hasWeather t
     \<and> hasFeatures (snd (OnStep_Aux_GetCapabilites L t)) = hasFeatures t"
proof -
  have "e \<noteq> 0" using assms(7) by simp
  note l = OnStep_Aux_long_no_bytes [OF assms(2,3,4,5,6) this, of OS_get_firmware]
  show ?thesis
    using assms(1,7) by (cases "1 < e") (simp_all add: OnStep_Aux_GetCapabilites_def l c_str_zeros Let_def)
qed

theorem firmware_probe_failure_aborts_discovery_witness:
  "fst (OnStep_Aux_GetCapabilites decimal_clib
         (OnStep_Aux_opened Serial 3 [] [(tty_code TTY_TIME_OUT, []), (tty_code TTY_TIME_OUT, [])]
            [0, 0, 0, 0])) = Throws Invalid_argument
   \<and> fst (OnStep_Aux_Handshake decimal_clib
         (OnStep_Aux_constructed Serial 3 []
            [(tty_code TTY_TIME_OUT, []), (tty_code TTY_OK, ''On-Step#''),
             (tty_code TTY_TIME_OUT, []), (tty_code TTY_TIME_OUT, [])]
            [0, 0, 0, 0])) = Throws Invalid_argument"
proof -
  let ?t = "OnStep_Aux_opened Serial 3 [] [(tty_code TTY_TIME_OUT, []), (tty_code TTY_TIME_OUT, [])]
            [0, 0, 0, 0]"
  have "stof decimal_clib [] = Inl Invalid_argument"
    by (simp add: decimal_clib_def decimal_prefix_def)
  moreover have "\<not> waitingForResponse ?t"
    and "reads ?t = (tty_code TTY_TIME_OUT, []) # (tty_code TTY_TIME_OUT, []) # []"
    and "tty_code TTY_TIME_OUT \<le> 0" and "length ([] :: string) \<le> RB_MAX_LEN"
    and "next_write ?t = tty_code TTY_OK" and "tty_code TTY_TIME_OUT \<noteq> tty_code TTY_OK"
    by (simp_all add: OnStep_Aux_opened_def OnStep_Aux_constructed_def next_write_def)
  ultimately have "fst (OnStep_Aux_GetCapabilites decimal_clib ?t) = Throws Invalid_argument"
    using firmware_probe_failure_aborts_discovery [of decimal_clib Invalid_argument ?t
        "tty_code TTY_TIME_OUT" "[]" "tty_code TTY_TIME_OUT" "[]"]
    by blast
  moreover have "fst (OnStep_Aux_Handshake decimal_clib
         (OnStep_Aux_constructed Serial 3 []
            [(tty_code TTY_TIME_OUT, []), (tty_code TTY_OK, ''On-Step#''),
             (tty_code TTY_TIME_OUT, []), (tty_code TTY_TIME_OUT, [])]
            [0, 0, 0, 0])) = Throws Invalid_argument"
    by code_simp
  ultimately show ?thesis by blast
qed

section \<open>Format errors\<close>

text \<open>
  C6. An integer or floating point transaction (\<^verbatim>\<open>getCommandIntResponse\<close>,
  \<^verbatim>\<open>getCommandDoubleResponse\<close>, of either driver) whose command is written and whose read
  succeeds, with a response that the framing step turns into a payload that the conversion
  (\<^verbatim>\<open>sscanf\<close> with \<^verbatim>\<open>%i\<close> or \<^verbatim>\<open>%lf\<close>) does not accept: the call returns
  \<^verbatim>\<open>RES_ERR_FORMAT\<close>, leaves \<^verbatim>\<open>*value\<close> as the caller had it, and its last call on the
  transport is \<^verbatim>\<open>tcflush(fd, TCIOFLUSH)\<close>. \<^verbatim>\<open>RES_ERR_FORMAT\<close> is none of the codes of
  \<^verbatim>\<open>TTY_ERROR\<close> and is not 0. (\<^verbatim>\<open>OnStep_Aux::getCommandIntResponse\<close> reads one byte,
  so its payload is the first byte of the response.)
\<close>

theorem format_error_sentinel:
  "(reads s = (e0, bs0) # (tty_code TTY_OK, bs) # rs \<and> e0 \<le> 0 \<and> length bs0 \<le> RB_MAX_LEN
      \<and> next_write s = tty_code TTY_OK \<and> length bs \<le> length data
      \<and> terminate_response (bs @ drop (length bs) data) (int (length bs)) = Returns data2
      \<and> sscanf_i L (c_str data2) = None
    \<longrightarrow> fst (OCS_getCommandIntResponse L v data cmd s) = Returns (RES_ERR_FORMAT, v, data2)
      \<and> last (calls (snd (OCS_getCommandIntResponse L v data cmd s))) = Tcflush TCIOFLUSH)
   \<and> (reads s = (e0, bs0) # (tty_code TTY_OK, bs) # rs \<and> e0 \<le> 0 \<and> length bs0 \<le> RB_MAX_LEN
      \<and> next_write s = tty_code TTY_OK \<and> length bs \<le> length data
      \<and> terminate_response (bs @ drop (length bs) data) (int (length bs)) = Returns data2
      \<and> sscanf_lf L (c_str data2) = None
    \<longrightarrow> fst (OCS_getCommandDoubleResponse L d data cmd s) = Returns (RES_ERR_FORMAT, d, data2)
      \<and> last (calls (snd (OCS_getCommandDoubleResponse L d data cmd s))) = Tcflush TCIOFLUSH)
   \<and> (\<not> waitingForResponse t
      \<and> reads t = (e0, bs0) # (tty_code TTY_OK, bs) # rs \<and> e0 \<le> 0 \<and> length bs0 \<le> RB_MAX_LEN
      \<and> next_write t = tty_code TTY_OK \<and> length (take 1 bs) \<le> length data
      \<and> terminate_response (take 1 bs @ drop (length (take 1 bs)) data)
            (int (length (take 1 bs))) = Returns data1
      \<and> sscanf_i L (c_str data1) = None
    \<longrightarrow> fst (OnStep_Aux_getCommandIntResponse L v data cmd t) = Returns (RES_ERR_FORMAT, v, data1)
      \<and> last (calls (snd (OnStep_Aux_getCommandIntResponse L v data cmd t))) = Tcflush TCIOFLUSH)
   \<and> (\<not> waitingForResponse t
      \<and> reads t = (e0, bs0) # (tty_code TTY_OK, bs) # rs \<and> e0 \<le> 0 \<and> length bs0 \<le> RB_MAX_LEN
      \<and> next_write t = tty_code TTY_OK \<and> length bs \<le> length data
      \<and> terminate_response (bs @ drop (length bs) data) (int (length bs)) = Returns data2
      \<and> sscanf_lf L (c_str data2) = None
    \<longrightarrow> fst (OnStep_Aux_getCommandDoubleResponse L d data cmd t) = Returns (RES_ERR_FORMAT, d, data2)
      \<and> last (calls (snd (OnStep_Aux_getCommandDoubleResponse L d data cmd t))) = Tcflush TCIOFLUSH)
   \<and> (\<forall>e. RES_ERR_FORMAT \<noteq> tty_code e) \<and> RES_ERR_FORMAT \<noteq> 0"
  using OCS_int_format_error [of s e0 bs0 bs rs data data2 L v cmd]
    OCS_double_format_error [of s e0 bs0 bs rs data data2 L d cmd]
    OnStep_Aux_int_format_error [of t e0 bs0 bs rs data data1 L v cmd]
    OnStep_Aux_double_format_error [of t e0 bs0 bs rs data data2 L d cmd]
    RES_ERR_FORMAT_distinct
  by (simp add: RES_ERR_FORMAT_def)

theorem format_error_sentinel_witness:
  "fst (OCS_getCommandIntResponse decimal_clib 7 (replicate RB_MAX_LEN NUL) '':DZ#''
         (OCS_constructed Serial 3 [] [(tty_code TTY_TIME_OUT, []), (tty_code TTY_OK, ''ERR#'')]))
     = Returns (RES_ERR_FORMAT, 7, ''ERR'' @ replicate 61 NUL)
   \<and> fst (OCS_getCommandDoubleResponse decimal_clib 7 (replicate RB_MAX_LEN NUL) '':DZ#''
         (OCS_constructed Serial 3 [] [(tty_code TTY_TIME_OUT, []), (tty_code TTY_OK, ''ERR#'')]))
     = Returns (RES_ERR_FORMAT, 7, ''ERR'' @ replicate 61 NUL)
   \<and> fst (OnStep_Aux_getCommandIntResponse decimal_clib 7 (replicate RB_MAX_LEN NUL) '':DZ#''
         (OnStep_Aux_opened Serial 3 []
            [(tty_code TTY_TIME_OUT, []), (tty_code TTY_OK, ''ERR#'')] [0, 0, 0, 0]))
     = Returns (RES_ERR_FORMAT, 7, ''E'' @ replicate 63 NUL)
   \<and> fst (OnStep_Aux_getCommandDoubleResponse decimal_clib 7 (replicate RB_MAX_LEN NUL) '':DZ#''
         (OnStep_Aux_opened Serial 3 []
            [(tty_code TTY_TIME_OUT, []), (tty_code TTY_OK, ''ERR#'')] [0, 0, 0, 0]))
     = Returns (RES_ERR_FORMAT, 7, ''ERR'' @ replicate 61 NUL)"
proof -
  let ?s = "OCS_constructed Serial 3 [] [(tty_code TTY_TIME_OUT, []), (tty_code TTY_OK, ''ERR#'')]"
  let ?t = "OnStep_Aux_opened Serial 3 []
            [(tty_code TTY_TIME_OUT, []), (tty_code TTY_OK, ''ERR#'')] [0, 0, 0, 0]"
  let ?data = "replicate RB_MAX_LEN NUL"
  have s: "reads ?s = (tty_code TTY_TIME_OUT, []) # (tty_code TTY_OK, ''ERR#'') # []"
    "next_write ?s = tty_code TTY_OK"
    by (simp_all add: OCS_constructed_def next_write_def)
  have t: "\<not> waitingForResponse ?t"
    "reads ?t = (tty_code TTY_TIME_OUT, []) # (tty_code TTY_OK, ''ERR#'') # []"
    "next_write ?t = tty_code TTY_OK"
    by (simp_all add: OnStep_Aux_opened_def OnStep_Aux_constructed_def next_write_def)
  have e: "tty_code TTY_TIME_OUT \<le> 0" "length ([] :: string) \<le> RB_MAX_LEN"
    "length ''ERR#'' \<le> length ?data" "length (take 1 ''ERR#'') \<le> length ?data"
    by (simp_all add: RB_MAX_LEN_def)
  have f: "terminate_response (''ERR#'' @ drop (length ''ERR#'') ?data) (int (length ''ERR#''))
             = Returns (''ERR'' @ replicate 61 NUL)"
    "terminate_response (take 1 ''ERR#'' @ drop (length (take 1 ''ERR#'')) ?data)
         (int (length (take 1 ''ERR#''))) = Returns (''E'' @ replicate 63 NUL)"
    by code_simp+
  have p: "sscanf_i decimal_clib (c_str (''ERR'' @ replicate 61 NUL)) = None"
    "sscanf_lf decimal_clib (c_str (''ERR'' @ replicate 61 NUL)) = None"
    "sscanf_i decimal_clib (c_str (''E'' @ replicate 63 NUL)) = None"
    by code_simp+
  from format_error_sentinel
    [of ?s "tty_code TTY_TIME_OUT" "[]" "''ERR#''" "[]" ?data "''ERR'' @ replicate 61 NUL"
        decimal_clib 7 "'':DZ#''" 7 ?t "''E'' @ replicate 63 NUL"
        ]
    s t e f p
  show ?thesis
    by blast
qed

section \<open>The framing step\<close>

text \<open>
  C4, as amended. The framing step on a buffer of at least \<^verbatim>\<open>RB_MAX_LEN\<close> bytes that holds
  \<open>n\<close> bytes of response. When the first terminator is at position \<open>k\<close>, below 64 and
  below \<open>n\<close>, and no NUL byte stands before it, the payload (the C string in the buffer) is
  exactly the first \<open>k\<close> bytes, and the bytes from index 64 on are not written. When \<open>n\<close> is
  64 or more and the text before the first NUL byte of the buffer has no terminator, the
  only write is the NUL at index \<^verbatim>\<open>RB_MAX_LEN - 1\<close>, the payload has at most 63 bytes, and
  it is the first 63 bytes when none of them is NUL.
\<close>

theorem framing_step:
  "(k < RB_MAX_LEN \<and> RB_MAX_LEN \<le> length data \<and> int k < n \<and> data ! k = CHR ''#''
      \<and> (\<forall>j<k. data ! j \<noteq> CHR ''#'' \<and> data ! j \<noteq> NUL)
    \<longrightarrow> (\<exists>data'. terminate_response data n = Returns data' \<and> c_str data' = take k data
          \<and> length data' = length data \<and> drop RB_MAX_LEN data' = drop RB_MAX_LEN data))
   \<and> (int RB_MAX_LEN \<le> n \<and> RB_MAX_LEN \<le> length data \<and> NUL \<in> set data
      \<and> CHR ''#'' \<notin> set (c_str data)
    \<longrightarrow> terminate_response data n = Returns (data[RB_MAX_LEN - 1 := NUL])
      \<and> length (c_str (data[RB_MAX_LEN - 1 := NUL])) \<le> RB_MAX_LEN - 1
      \<and> ((\<forall>j<RB_MAX_LEN - 1. data ! j \<noteq> NUL)
           \<longrightarrow> c_str (data[RB_MAX_LEN - 1 := NUL]) = take (RB_MAX_LEN - 1) data))"
proof (intro conjI impI)
  assume a: "k < RB_MAX_LEN \<and> RB_MAX_LEN \<le> length data \<and> int k < n \<and> data ! k = CHR ''#''
      \<and> (\<forall>j<k. data ! j \<noteq> CHR ''#'' \<and> data ! j \<noteq> NUL)"
  then have k: "k < length data" by simp
  from a k have s: "strchr data CHR ''#'' = Returns (Some k)"
    by (intro strchr_found) auto
  define m where "m = (if n < int RB_MAX_LEN then nat n else RB_MAX_LEN - 1)"
  have m: "k \<le> m" "m < RB_MAX_LEN" "m < length data"
    using a by (auto simp: m_def RB_MAX_LEN_def)
  define data' where "data' = data[k := NUL, m := NUL]"
  have t: "terminate_response data n = Returns data'"
  proof (cases "n < int RB_MAX_LEN")
    case True
    with s m show ?thesis
      by (simp add: terminate_response_def poke_def m_def data'_def)
  next
    case False
    with s m show ?thesis
      by (simp add: terminate_response_def poke_def m_def data'_def)
  qed
  have "data' ! k = NUL" "\<forall>j<k. data' ! j \<noteq> NUL" "k < length data'"
    using a k m by (auto simp: data'_def nth_list_update)
  then have "c_str data' = take k data'" by (intro c_str_cut) auto
  also have "\<dots> = take k data"
    using m by (simp add: data'_def)
  finally have c: "c_str data' = take k data" .
  have d: "drop RB_MAX_LEN data' = drop RB_MAX_LEN data"
    using a m by (simp add: data'_def drop_update_cancel)
  show "\<exists>data'. terminate_response data n = Returns data' \<and> c_str data' = take k data
          \<and> length data' = length data \<and> drop RB_MAX_LEN data' = drop RB_MAX_LEN data"
    using t c d by (auto simp: data'_def)
next
  assume b: "int RB_MAX_LEN \<le> n \<and> RB_MAX_LEN \<le> length data \<and> NUL \<in> set data
      \<and> CHR ''#'' \<notin> set (c_str data)"
  then have "strchr data CHR ''#'' = Returns None"
    by (intro strchr_absent) (auto simp: NUL_def)
  with b show "terminate_response data n = Returns (data[RB_MAX_LEN - 1 := NUL])"
    by (auto simp: terminate_response_def poke_def RB_MAX_LEN_def)
next
  assume b: "int RB_MAX_LEN \<le> n \<and> RB_MAX_LEN \<le> length data \<and> NUL \<in> set data
      \<and> CHR ''#'' \<notin> set (c_str data)"
  then show "length (c_str (data[RB_MAX_LEN - 1 := NUL])) \<le> RB_MAX_LEN - 1"
    by (intro c_str_length_le) (auto simp: RB_MAX_LEN_def)
next
  assume b: "int RB_MAX_LEN \<le> n \<and> RB_MAX_LEN \<le> length data \<and> NUL \<in> set data
      \<and> CHR ''#'' \<notin> set (c_str data)"
    and c: "\<forall>j<RB_MAX_LEN - 1. data ! j \<noteq> NUL"
  have "c_str (data[RB_MAX_LEN - 1 := NUL]) = take (RB_MAX_LEN - 1) (data[RB_MAX_LEN - 1 := NUL])"
    using b c by (intro c_str_cut) (auto simp: RB_MAX_LEN_def)
  then show "c_str (data[RB_MAX_LEN - 1 := NUL]) = take (RB_MAX_LEN - 1) data"
    by simp
qed


theorem framing_step_witness:
  "terminate_response terminated_buffer 4 = Returns (''ERR'' @ replicate 61 NUL)
   \<and> c_str (''ERR'' @ replicate 61 NUL) = take 3 terminated_buffer
   \<and> terminate_response closed_buffer 64 = Returns (closed_buffer[RB_MAX_LEN - 1 := NUL])
   \<and> c_str (closed_buffer[RB_MAX_LEN - 1 := NUL]) = take (RB_MAX_LEN - 1) closed_buffer"
proof -
  have t: "terminate_response terminated_buffer 4 = Returns (''ERR'' @ replicate 61 NUL)"
    by code_simp
  have a: "3 < RB_MAX_LEN \<and> RB_MAX_LEN \<le> length terminated_buffer \<and> int 3 < 4
      \<and> terminated_buffer ! 3 = CHR ''#''
      \<and> (\<forall>j<3. terminated_buffer ! j \<noteq> CHR ''#'' \<and> terminated_buffer ! j \<noteq> NUL)"
    by (simp add: terminated_buffer_def RB_MAX_LEN_def NUL_def numeral_3_eq_3 All_less_Suc)
  have b: "int RB_MAX_LEN \<le> 64 \<and> RB_MAX_LEN \<le> length closed_buffer \<and> NUL \<in> set closed_buffer
      \<and> CHR ''#'' \<notin> set (c_str closed_buffer)"
    by (simp add: closed_buffer_def RB_MAX_LEN_def NUL_def c_str_def takeWhile_append)
  have c: "\<forall>j<RB_MAX_LEN - 1. closed_buffer ! j \<noteq> NUL"
    by (simp add: closed_buffer_def RB_MAX_LEN_def NUL_def nth_append)
  from framing_step [of 3 terminated_buffer 4] a t
  have "c_str (''ERR'' @ replicate 61 NUL) = take 3 terminated_buffer"
    by auto
  moreover from framing_step [of _ closed_buffer 64] b c
  have "terminate_response closed_buffer 64 = Returns (closed_buffer[RB_MAX_LEN - 1 := NUL])
     \<and> c_str (closed_buffer[RB_MAX_LEN - 1 := NUL]) = take (RB_MAX_LEN - 1) closed_buffer"
    by blast
  ultimately show ?thesis using t by blast
qed

text \<open>
  C4, as stated, fails. A response of the four bytes a, NUL, b and the terminator has its
  terminator at position 3, and the payload is the one byte a, not the first three bytes:
  \<^verbatim>\<open>strchr\<close> and every reader of the payload stop at the NUL byte. And on a buffer filled
  by 64 bytes with no terminator (and no NUL byte) the scan of \<^verbatim>\<open>strchr\<close> for the
  terminator, which comes before the forced truncation, leaves the array.
\<close>

theorem framing_counterexample:
  "length noisy_buffer = RB_MAX_LEN \<and> noisy_buffer ! 3 = CHR ''#''
   \<and> terminate_response noisy_buffer 4 = Returns noisy_buffer
   \<and> c_str noisy_buffer = ''a'' \<and> c_str noisy_buffer \<noteq> take 3 noisy_buffer
   \<and> length full_buffer = RB_MAX_LEN \<and> CHR ''#'' \<notin> set full_buffer
   \<and> terminate_response full_buffer 64 = Undefined"
  by code_simp

end
